theory Spec2Isabelle
  imports Complex_Main
begin

section \<open>Region capture on the canvas overlay (VideoPlayer.tsx)\<close>

text \<open>
  A JavaScript number is a binary64 value. A finite one is modelled as the real it
  denotes, and every arithmetic step of the drawing handlers, whose thresholds decide
  what is committed, is followed by the rounding to the nearest binary64 value that the
  machine performs. Values the source takes from the clock or from \<open>Math.random\<close> are
  parameters of the functions that use them.
\<close>

subsection \<open>Rounding to binary64\<close>

text \<open>Rounding a real to the nearest integer, a tie going to the even one.\<close>

definition round_half_even :: "real \<Rightarrow> int" where
  "round_half_even y =
     (let n = \<lfloor>y\<rfloor>; r = y - of_int n
      in if r < 1 / 2 then n else if r > 1 / 2 then n + 1 else if even n then n else n + 1)"

text \<open>The binary exponent of a number: the largest \<open>e\<close> from 1023 down with
  \<open>2^e \<le> |x|\<close>, and -1022 for the subnormal numbers and zero.\<close>

primrec exponent_search :: "real \<Rightarrow> int \<Rightarrow> nat \<Rightarrow> int" where
  "exponent_search x e 0 = e"
| "exponent_search x e (Suc n) =
     (if 2 powi e \<le> \<bar>x\<bar> then e else exponent_search x (e - 1) n)"

definition binary_exponent :: "real \<Rightarrow> int" where
  "binary_exponent x = exponent_search x 1023 2045"

text \<open>Round to nearest, ties to even, with a significand of 53 bits: the result is a
  multiple of \<open>2^(e - 52)\<close>. Overflow to an infinity is not represented. The handlers
  clamp the one difference that could overflow into the canvas, where a value beyond the
  largest binary64 number and an infinity give the same point; every other operand is a
  coordinate inside the canvas.\<close>

definition round64 :: "real \<Rightarrow> real" where
  "round64 x =
     (let q = 2 powi (binary_exponent x - 52)
      in of_int (round_half_even (x / q)) * q)"

subsection \<open>State\<close>

record DrawingPoint =
  pt_x :: real
  pt_y :: real

datatype area_type = Path | Rectangle

record DrawnArea =
  area_id :: string
  points :: "DrawingPoint list"
  color :: string
  area_kind :: area_type
  startPoint :: "DrawingPoint option"
  endPoint :: "DrawingPoint option"

datatype drawing_mode = FreeMode | RectangleMode

text \<open>The video element behind \<open>videoRef\<close>: the two properties \<open>toggleDrawing\<close> reads
  and writes.\<close>

record video_element =
  el_currentTime :: real
  el_paused :: bool

text \<open>What \<open>setTimeout\<close> has scheduled and not yet run.\<close>

datatype deferred = InitializeCanvas | RestorePlayback real bool

text \<open>The canvas behind \<open>canvasRef\<close>: its bounding rectangle's corner, its backing size
  and whether a 2d context is available.\<close>

record canvas_element =
  rect_left :: real
  rect_top :: real
  canvas_width :: real
  canvas_height :: real
  has_context :: bool

record mouse_event =
  clientX :: real
  clientY :: real

text \<open>The part of the component's state that region capture, the drawing toggle and the
  delete confirmation use.\<close>

record player_state =
  isDrawing :: bool
  drawnAreas :: "DrawnArea list"
  currentPath :: "DrawingPoint list"
  isMouseDown :: bool
  drawingMode :: drawing_mode
  rectangleStart :: "DrawingPoint option"
  currentRectangle :: "DrawnArea option"
  isErasing :: bool
  canvasInitialized :: bool
  showAdminPanel :: bool
  videoElement :: "video_element option"
  timeouts :: "deferred list"
  selectedObjectIds :: "string list"
  hasObjectChanges :: bool
  selectedObjectId :: "string option"
  isEditing :: bool
  showDeleteConfirmModal :: bool
  objectToDelete :: "string option"
  deleteConfirmed :: bool

definition getCanvasCoordinates :: "canvas_element option \<Rightarrow> mouse_event \<Rightarrow> DrawingPoint" where
  "getCanvasCoordinates canvas e =
     (case canvas of
        None \<Rightarrow> \<lparr>pt_x = 0, pt_y = 0\<rparr>
      | Some c \<Rightarrow>
          (let x = round64 (clientX e - rect_left c);
               y = round64 (clientY e - rect_top c)
           in \<lparr>pt_x = max 0 (min x (canvas_width c)),
               pt_y = max 0 (min y (canvas_height c))\<rparr>))"

text \<open>The predicate of \<open>drawnAreas.find\<close> in erase mode.\<close>

definition area_hit :: "DrawingPoint \<Rightarrow> DrawnArea \<Rightarrow> bool" where
  "area_hit coords area =
     (case (area_kind area, startPoint area, endPoint area) of
        (Rectangle, Some sp, Some ep) \<Rightarrow>
          (let minX = min (pt_x sp) (pt_x ep); maxX = max (pt_x sp) (pt_x ep);
               minY = min (pt_y sp) (pt_y ep); maxY = max (pt_y sp) (pt_y ep)
           in pt_x coords \<ge> minX \<and> pt_x coords \<le> maxX \<and>
              pt_y coords \<ge> minY \<and> pt_y coords \<le> maxY)
      | (Path, _, _) \<Rightarrow>
          length (points area) > 0 \<and>
          list_ex (\<lambda>p. \<bar>round64 (pt_x p - pt_x coords)\<bar> < 10 \<and>
                       \<bar>round64 (pt_y p - pt_y coords)\<bar> < 10)
            (points area)
      | _ \<Rightarrow> False)"

definition handleMouseDown :: "canvas_element option \<Rightarrow> mouse_event \<Rightarrow> player_state \<Rightarrow> player_state" where
  "handleMouseDown canvas e s =
     (if \<not> isDrawing s \<or> \<not> canvasInitialized s then s
      else
        (let s1 = s\<lparr>isMouseDown := True\<rparr>;
             coords = getCanvasCoordinates canvas e
         in if isErasing s then
              (case find (area_hit coords) (drawnAreas s) of
                 Some clickedArea \<Rightarrow>
                   s1\<lparr>drawnAreas :=
                        filter (\<lambda>area. area_id area \<noteq> area_id clickedArea) (drawnAreas s1)\<rparr>
               | None \<Rightarrow> s1)
            else if drawingMode s = RectangleMode then
              s1\<lparr>rectangleStart := Some coords, currentRectangle := None\<rparr>
            else s1\<lparr>currentPath := [coords]\<rparr>))"

definition handleMouseMove :: "canvas_element option \<Rightarrow> mouse_event \<Rightarrow> player_state \<Rightarrow> player_state" where
  "handleMouseMove canvas e s =
     (if \<not> isDrawing s \<or> \<not> isMouseDown s \<or> \<not> canvasInitialized s then s
      else
        (let coords = getCanvasCoordinates canvas e in
         if \<not> (case canvas of None \<Rightarrow> False | Some c \<Rightarrow> has_context c) then s
         else if isErasing s then s
         else
           (case (drawingMode s, rectangleStart s) of
              (RectangleMode, Some rs) \<Rightarrow>
                (let normalizedX = min (pt_x rs) (pt_x coords);
                     normalizedY = min (pt_y rs) (pt_y coords);
                     width = \<bar>round64 (pt_x coords - pt_x rs)\<bar>;
                     height = \<bar>round64 (pt_y coords - pt_y rs)\<bar>
                 in s\<lparr>currentRectangle := Some
                        \<lparr>area_id = ''temp'', points = [], color = ''#ef4444'',
                         area_kind = Rectangle,
                         startPoint = Some \<lparr>pt_x = normalizedX, pt_y = normalizedY\<rparr>,
                         endPoint = Some \<lparr>pt_x = round64 (normalizedX + width),
                                           pt_y = round64 (normalizedY + height)\<rparr>\<rparr>\<rparr>)
            | (RectangleMode, None) \<Rightarrow> s
            | (FreeMode, _) \<Rightarrow> s\<lparr>currentPath := currentPath s @ [coords]\<rparr>)))"

text \<open>The distance \<open>handleMouseUp\<close> computes between the ends of a path:
  \<open>Math.sqrt(Math.pow(dx, 2) + Math.pow(dy, 2))\<close>, each step rounded. The square and the
  square root are taken correctly rounded, as the engines compute them (\<open>x * x\<close> for the
  exponent 2, the machine's square root).\<close>

definition distance :: "DrawingPoint \<Rightarrow> DrawingPoint \<Rightarrow> real" where
  "distance firstPoint lastPoint =
     round64 (sqrt (round64
       (round64 ((round64 (pt_x firstPoint - pt_x lastPoint))\<^sup>2) +
        round64 ((round64 (pt_y firstPoint - pt_y lastPoint))\<^sup>2))))"

text \<open>The point list stored for a freehand capture: \<open>closedPath\<close> in \<open>handleMouseUp\<close>.
  The source reads \<open>closedPath[0]\<close> and the last element only when the list has more than
  two points.\<close>

definition closedPath :: "DrawingPoint list \<Rightarrow> DrawingPoint list" where
  "closedPath path =
     (if length path > 2 then
        (let firstPoint = hd path; lastPoint = last path
         in if distance firstPoint lastPoint > 30 then path @ [firstPoint] else path)
      else path)"

text \<open>\<open>suffix\<close> is the \<open>Date.now()\<close>-and-random tail of the new region's id.\<close>

definition handleMouseUp ::
  "canvas_element option \<Rightarrow> mouse_event \<Rightarrow> string \<Rightarrow> player_state \<Rightarrow> player_state" where
  "handleMouseUp canvas e suffix s =
     (if \<not> isDrawing s \<or> \<not> isMouseDown s \<or> \<not> canvasInitialized s then s
      else
        (let s1 = s\<lparr>isMouseDown := False\<rparr>;
             coords = getCanvasCoordinates canvas e
         in if isErasing s then s1
            else
              (let s2 =
                 (case (drawingMode s, rectangleStart s) of
                    (RectangleMode, Some rs) \<Rightarrow>
                      (let width = \<bar>round64 (pt_x coords - pt_x rs)\<bar>;
                           height = \<bar>round64 (pt_y coords - pt_y rs)\<bar>;
                           s' = (if width > 5 \<and> height > 5 then
                                   s1\<lparr>drawnAreas := drawnAreas s1 @
                                     [\<lparr>area_id = ''rect-'' @ suffix, points = [],
                                       color = ''#ef4444'', area_kind = Rectangle,
                                       startPoint = Some \<lparr>pt_x = min (pt_x rs) (pt_x coords),
                                                           pt_y = min (pt_y rs) (pt_y coords)\<rparr>,
                                       endPoint = Some \<lparr>pt_x = max (pt_x rs) (pt_x coords),
                                                         pt_y = max (pt_y rs) (pt_y coords)\<rparr>\<rparr>]\<rparr>
                                 else s1)
                       in s'\<lparr>rectangleStart := None, currentRectangle := None\<rparr>)
                  | (RectangleMode, None) \<Rightarrow> s1
                  | (FreeMode, _) \<Rightarrow>
                      (if length (currentPath s) > 2 then
                         s1\<lparr>drawnAreas := drawnAreas s1 @
                           [\<lparr>area_id = ''path-'' @ suffix, points = closedPath (currentPath s),
                             color = ''#ef4444'', area_kind = Path,
                             startPoint = None, endPoint = None\<rparr>]\<rparr>
                       else s1))
               in s2\<lparr>currentPath := []\<rparr>)))"

text \<open>\<open>wasPaused\<close> is \<open>videoElement?.paused || true\<close> in the source, which is true for
  every element.\<close>

definition toggleDrawing :: "player_state \<Rightarrow> player_state" where
  "toggleDrawing s =
     (let newDrawingState = \<not> isDrawing s;
          currentTime = (case videoElement s of None \<Rightarrow> 0 | Some v \<Rightarrow> el_currentTime v);
          wasPaused = (case videoElement s of None \<Rightarrow> True | Some v \<Rightarrow> el_paused v \<or> True);
          s1 = s\<lparr>isDrawing := newDrawingState\<rparr>
      in if newDrawingState then
           (let s2 = s1\<lparr>showAdminPanel := False,
                        videoElement := map_option (\<lambda>v. v\<lparr>el_paused := True\<rparr>) (videoElement s1)\<rparr>
            in if canvasInitialized s then s2
               else s2\<lparr>timeouts := timeouts s2 @ [InitializeCanvas]\<rparr>)
         else
           (let s2 = s1\<lparr>showAdminPanel := True, currentPath := [], isMouseDown := False,
                        isErasing := False, rectangleStart := None, currentRectangle := None\<rparr>
            in case videoElement s of
                 None \<Rightarrow> s2
               | Some v \<Rightarrow> s2\<lparr>timeouts := timeouts s2 @ [RestorePlayback currentTime wasPaused]\<rparr>))"

definition clearAllDrawings :: "player_state \<Rightarrow> player_state" where
  "clearAllDrawings s = s\<lparr>drawnAreas := [], currentPath := []\<rparr>"

text \<open>The component's state as its \<open>useState\<close> calls initialise it; no video element is
  mounted yet.\<close>

definition initial_player :: player_state where
  "initial_player =
     \<lparr>isDrawing = False, drawnAreas = [], currentPath = [], isMouseDown = False,
      drawingMode = RectangleMode, rectangleStart = None, currentRectangle = None,
      isErasing = False, canvasInitialized = False, showAdminPanel = True,
      videoElement = None, timeouts = [],
      selectedObjectIds = [], hasObjectChanges = False, selectedObjectId = None,
      isEditing = False, showDeleteConfirmModal = False, objectToDelete = None,
      deleteConfirmed = False\<rparr>"

section \<open>The object catalog (the useVideoUpload hook)\<close>

record File =
  file_name :: string
  file_type :: string
  file_size :: nat

record DetectedObject =
  obj_id :: string
  name :: string
  confidence :: real
  selected :: bool
  code :: "string option"
  additionalInfo :: "string option"
  dlReservoirDomain :: "string option"
  category :: "string option"

record VideoInfo =
  vid :: string
  video_file :: File
  duration :: real
  currentTime :: real
  detectedObjects :: "DetectedObject list"
  totalObjectsCreated :: nat
  uploadDate :: nat

datatype upload_status = Uploading | Processing | Completed | Failed

record UploadItem =
  upload_id :: string
  filename :: string
  upload_size :: nat
  progress :: real
  status :: upload_status
  uploadSpeed :: "real option"
  timeRemaining :: "real option"
  upload_date :: "nat option"

text \<open>\<open>intervals\<close> holds the detection timers that \<open>setInterval\<close> has started and
  \<open>clearInterval\<close> has not stopped, each with the \<open>videoId\<close> its callback closes over;
  \<open>pendingResets\<close> counts the one-second timeouts that set the progress back to 0.\<close>

record hook_state =
  videos :: "VideoInfo list"
  uploads :: "UploadItem list"
  selectedVideoId :: "string option"
  showVideoPlayer :: bool
  showDeleteModal :: bool
  adminPanelVisible :: bool
  isDetecting :: bool
  detectionProgress :: real
  panelAnimating :: bool
  panelClosing :: bool
  hasRunDetection :: bool
  intervals :: "string list"
  pendingResets :: nat

definition initial_hook :: hook_state where
  "initial_hook =
     \<lparr>videos = [], uploads = [], selectedVideoId = None, showVideoPlayer = False,
      showDeleteModal = False, adminPanelVisible = False, isDetecting = False,
      detectionProgress = 0, panelAnimating = False, panelClosing = False,
      hasRunDetection = False, intervals = [], pendingResets = 0\<rparr>"

text \<open>The notices the handlers raise; the Korean texts of the source are named, and the
  notice after an export carries the count and the joined names it prints.\<close>

datatype toast =
  OnlyVideoFiles | FileTooLarge | UploadDone | UploadError | DetectionDone
  | ObjectsDeleted | VideoDeleted | ObjectsAdded nat string

text \<open>Non-ASCII literals of the source, as their UTF-8 bytes: the default category (the
  Korean word for "other") and the default description of an object.\<close>

definition category_other :: string where
  "category_other = map char_of [234, 184, 176, 237, 131, 128 :: nat]"

definition auto_detected_info :: string where
  "auto_detected_info = map char_of
     [65, 73, 234, 176, 128, 32, 236, 158, 144, 235, 143, 153, 236, 156, 188, 235, 161,
      156, 32, 237, 131, 144, 236, 167, 128, 237, 149, 156, 32, 234, 176, 157, 236, 178,
      180, 236, 158, 133, 235, 139, 136, 235, 139, 164, 46 :: nat]"

text \<open>A number in a template literal: its decimal digits.\<close>

definition digit_char :: "nat \<Rightarrow> char" where
  "digit_char d = ''0123456789'' ! d"

fun string_of_nat :: "nat \<Rightarrow> string" where
  "string_of_nat n =
     (if n < 10 then [digit_char n]
      else string_of_nat (n div 10) @ [digit_char (n mod 10)])"

declare string_of_nat.simps [simp del]

definition object_name :: "nat \<Rightarrow> string" where
  "object_name n = ''Object('' @ string_of_nat n @ '')''"

text \<open>\<open>toUpperCase\<close> on the ASCII letters, which is all an id's first characters hold.\<close>

definition to_upper_char :: "char \<Rightarrow> char" where
  "to_upper_char c =
     (case map_of (zip ''abcdefghijklmnopqrstuvwxyz'' ''ABCDEFGHIJKLMNOPQRSTUVWXYZ'') c of
        Some u \<Rightarrow> u
      | None \<Rightarrow> c)"

text \<open>The entries have no id in the source; detection sets it when it instantiates them.\<close>

definition DEFAULT_OBJECTS :: "DetectedObject list" where
  "DEFAULT_OBJECTS =
     map (\<lambda>(n, conf, c).
            \<lparr>obj_id = [], name = n, confidence = conf, selected = False, code = Some c,
             additionalInfo = Some auto_detected_info,
             dlReservoirDomain = Some ''http://www.naver.com'',
             category = Some category_other\<rparr>)
       [(''Object(1)'', 95 / 100, ''CODE_OBJ001''),
        (''Object(2)'', 87 / 100, ''CODE_OBJ002''),
        (''Object(3)'', 92 / 100, ''CODE_OBJ003''),
        (''Object(4)'', 78 / 100, ''CODE_OBJ004''),
        (''Object(5)'', 84 / 100, ''CODE_OBJ005'')]"

definition selectedVideo :: "hook_state \<Rightarrow> VideoInfo option" where
  "selectedVideo s =
     (case selectedVideoId s of None \<Rightarrow> None
      | Some i \<Rightarrow> find (\<lambda>v. vid v = i) (videos s))"

definition selectedVideoObjects :: "hook_state \<Rightarrow> DetectedObject list" where
  "selectedVideoObjects s =
     (case selectedVideo s of None \<Rightarrow> [] | Some v \<Rightarrow> detectedObjects v)"

subsection \<open>Uploading\<close>

text \<open>What the upload request came to: the request threw, the response was not OK, or it
  carried a JSON body whose \<open>id\<close> may be missing.\<close>

datatype upload_response = FetchThrew | ResponseNotOk | ResponseOk "string option"

definition starts_with :: "string \<Rightarrow> string \<Rightarrow> bool" where
  "starts_with pre str = (take (length pre) str = pre)"

text \<open>\<open>now\<close> is \<open>Date.now()\<close> at the time the response arrives. The result is the new state
  and the notice shown.\<close>

definition handleFileSelect ::
  "File \<Rightarrow> upload_response \<Rightarrow> nat \<Rightarrow> hook_state \<Rightarrow> hook_state \<times> toast" where
  "handleFileSelect f response now s =
     (if \<not> starts_with ''video/'' (file_type f) then (s, OnlyVideoFiles)
      else if file_size f > 2 * 1024 * 1024 * 1024 then (s, FileTooLarge)
      else
        (case response of
           ResponseOk rid \<Rightarrow>
             (s\<lparr>videos :=
                  [\<lparr>vid = (case rid of
                             Some i \<Rightarrow> if i = [] then ''video-'' @ string_of_nat now else i
                           | None \<Rightarrow> ''video-'' @ string_of_nat now),
                    video_file = f, duration = 0, currentTime = 0, detectedObjects = [],
                    totalObjectsCreated = 0, uploadDate = now\<rparr>]\<rparr>,
              UploadDone)
         | _ \<Rightarrow> (s, UploadError)))"

text \<open>The simulated upload, in the two steps that touch the video list: the call itself,
  and the timeout that ends the processing phase. \<open>uploadId\<close> is the generated id and
  \<open>r\<close> the random factor of the upload time.\<close>

definition simulateUpload :: "File \<Rightarrow> string \<Rightarrow> real \<Rightarrow> nat \<Rightarrow> hook_state \<Rightarrow> hook_state" where
  "simulateUpload f uploadId r now s =
     (let fileSizeInMB = real (file_size f) / (1024 * 1024);
          baseUploadTime = max 3 (fileSizeInMB * (1 / 2 + r * (3 / 2)));
          newUpload = \<lparr>upload_id = uploadId, filename = file_name f, upload_size = file_size f,
                       progress = 0, status = Uploading, uploadSpeed = Some 0,
                       timeRemaining = Some baseUploadTime, upload_date = Some now\<rparr>
      in s\<lparr>uploads := [newUpload], videos := [], selectedVideoId := None,
           adminPanelVisible := False\<rparr>)"

definition simulateUpload_processed :: "File \<Rightarrow> string \<Rightarrow> nat \<Rightarrow> hook_state \<Rightarrow> hook_state \<times> toast" where
  "simulateUpload_processed f uploadId now s =
     (s\<lparr>uploads := map (\<lambda>u. if upload_id u = uploadId then u\<lparr>status := Completed\<rparr> else u)
                       (uploads s),
        videos := [\<lparr>vid = uploadId, video_file = f, duration = 0, currentTime = 0,
                    detectedObjects = [], totalObjectsCreated = 0, uploadDate = now\<rparr>]\<rparr>,
      UploadDone)"

subsection \<open>Detection\<close>

text \<open>The body of the \<open>setVideos\<close> update on completion. \<open>sfx index\<close> is the
  clock-and-random tail of the id of the object at \<open>index\<close>.\<close>

definition populate :: "string \<Rightarrow> (nat \<Rightarrow> string) \<Rightarrow> VideoInfo \<Rightarrow> VideoInfo" where
  "populate videoId sfx video =
     (if vid video \<noteq> videoId then video
      else if length (detectedObjects video) > 0 then video
      else video
        \<lparr>detectedObjects :=
           map (\<lambda>(index, obj).
                  obj\<lparr>obj_id := videoId @ ''-obj-'' @ string_of_nat index @ ''-'' @ sfx index,
                      name := object_name (index + 1)\<rparr>)
             (enumerate 0 DEFAULT_OBJECTS),
         totalObjectsCreated := max (totalObjectsCreated video) (length DEFAULT_OBJECTS)\<rparr>)"

text \<open>The call. The guard reads \<open>isDetecting\<close> from the closure of the callback instance
  that is called: \<open>isDetectingCaptured\<close> is its value in the render that created the
  instance (\<open>useCallback\<close> with the dependency \<open>isDetecting\<close>), not the current state.\<close>

definition runObjectDetection :: "bool \<Rightarrow> string \<Rightarrow> hook_state \<Rightarrow> hook_state" where
  "runObjectDetection isDetectingCaptured videoId s =
     (if videoId = [] \<or> isDetectingCaptured then s
      else s\<lparr>isDetecting := True, detectionProgress := 0,
             intervals := intervals s @ [videoId]\<rparr>)"

text \<open>One firing of the timer at position \<open>i\<close>, with \<open>r\<close> the value of
  \<open>Math.random()\<close>.\<close>

definition detectionTick :: "nat \<Rightarrow> real \<Rightarrow> (nat \<Rightarrow> string) \<Rightarrow> hook_state \<Rightarrow> hook_state" where
  "detectionTick i r sfx s =
     (if i \<ge> length (intervals s) then s
      else
        (let videoId = intervals s ! i;
             newProgress = detectionProgress s + r * 15 + 5
         in if newProgress \<ge> 100 then
              s\<lparr>intervals := take i (intervals s) @ drop (Suc i) (intervals s),
                isDetecting := False,
                detectionProgress := 100,
                hasRunDetection := True,
                videos := map (populate videoId sfx) (videos s),
                selectedVideoId := Some videoId,
                pendingResets := Suc (pendingResets s)\<rparr>
            else s\<lparr>detectionProgress := min newProgress 100\<rparr>))"

definition resetDetectionProgress :: "hook_state \<Rightarrow> hook_state" where
  "resetDetectionProgress s =
     (if pendingResets s = 0 then s
      else s\<lparr>detectionProgress := 0, pendingResets := pendingResets s - 1\<rparr>)"

text \<open>A whole run with nothing else in between, through the callback instance of the
  current render: the call, then the firings of the newest timer, one for each random
  value. The progress arithmetic of the hook is written exact; no statement below depends
  on how it rounds, and the examples use random values (7/8, 1/2) whose every
  intermediate result is a binary64 value.\<close>

fun run_ticks :: "real list \<Rightarrow> (nat \<Rightarrow> string) \<Rightarrow> hook_state \<Rightarrow> hook_state" where
  "run_ticks [] sfx s = s"
| "run_ticks (r # rs) sfx s = run_ticks rs sfx (detectionTick (length (intervals s) - 1) r sfx s)"

definition detection_run :: "string \<Rightarrow> real list \<Rightarrow> (nat \<Rightarrow> string) \<Rightarrow> hook_state \<Rightarrow> hook_state" where
  "detection_run videoId rs sfx s =
     run_ticks rs sfx (runObjectDetection (isDetecting s) videoId s)"

subsection \<open>Adding, deleting and updating objects\<close>

text \<open>\<open>snapshot\<close> is the video list the callback closes over (that of the last render);
  the update itself is applied to the current list. \<open>suffix\<close> is the clock-and-random tail
  of the id and \<open>rnd\<close> the value of \<open>Math.random()\<close> for the confidence. An empty
  \<open>objectName\<close> is falsy and gives the default name. The result is the name and the new
  state.\<close>

definition addNewObjectToVideo ::
  "VideoInfo list \<Rightarrow> string \<Rightarrow> string option \<Rightarrow> string \<Rightarrow> real \<Rightarrow> hook_state
     \<Rightarrow> string \<times> hook_state" where
  "addNewObjectToVideo snapshot videoId objectName suffix rnd s =
     (let nextObjectNumber =
            (case find (\<lambda>v. vid v = videoId) snapshot of
               Some currentVideo \<Rightarrow> totalObjectsCreated currentVideo + 1
             | None \<Rightarrow> 1);
          finalObjectName =
            (case objectName of
               Some n \<Rightarrow> if n = [] then object_name nextObjectNumber else n
             | None \<Rightarrow> object_name nextObjectNumber);
          objectId = videoId @ ''-new-'' @ suffix;
          newObject =
            \<lparr>obj_id = objectId, name = finalObjectName,
             confidence = 85 / 100 + rnd * (15 / 100), selected = False,
             code = Some (''CODE_'' @ map to_upper_char (take 8 objectId)),
             additionalInfo = Some auto_detected_info,
             dlReservoirDomain = Some ''http://www.naver.com'',
             category = Some category_other\<rparr>
      in (finalObjectName,
          s\<lparr>videos :=
               map (\<lambda>video. if vid video = videoId
                             then video\<lparr>totalObjectsCreated := totalObjectsCreated video + 1,
                                        detectedObjects := detectedObjects video @ [newObject]\<rparr>
                             else video)
                 (videos s)\<rparr>))"

definition deleteObjectFromVideo :: "string \<Rightarrow> string \<Rightarrow> hook_state \<Rightarrow> hook_state" where
  "deleteObjectFromVideo videoId objectId s =
     s\<lparr>videos :=
          map (\<lambda>video. if vid video = videoId
                        then video\<lparr>detectedObjects :=
                                     filter (\<lambda>obj. obj_id obj \<noteq> objectId) (detectedObjects video)\<rparr>
                        else video)
            (videos s)\<rparr>"

definition deleteSelectedObjects :: "hook_state \<Rightarrow> hook_state" where
  "deleteSelectedObjects s =
     (case selectedVideoId s of
        None \<Rightarrow> s
      | Some sel \<Rightarrow>
          if sel = [] then s
          else s\<lparr>videos :=
                   map (\<lambda>video. if vid video = sel
                                 then video\<lparr>detectedObjects :=
                                              filter (\<lambda>obj. \<not> selected obj) (detectedObjects video)\<rparr>
                                 else video)
                     (videos s),
                 showDeleteModal := False\<rparr>)"

text \<open>The patch of \<open>updateObjectInVideo\<close>: a field that is \<open>None\<close> is a key the patch
  does not have.\<close>

record object_updates =
  upd_name :: "string option"
  upd_code :: "string option"
  upd_additionalInfo :: "string option"
  upd_dlReservoirDomain :: "string option"
  upd_category :: "string option"

text \<open>The spread \<open>{ ...obj, ...updates }\<close>.\<close>

definition merge_updates :: "DetectedObject \<Rightarrow> object_updates \<Rightarrow> DetectedObject" where
  "merge_updates obj updates =
     obj\<lparr>name := (case upd_name updates of Some v \<Rightarrow> v | None \<Rightarrow> name obj),
         code := (case upd_code updates of Some v \<Rightarrow> Some v | None \<Rightarrow> code obj),
         additionalInfo :=
           (case upd_additionalInfo updates of Some v \<Rightarrow> Some v | None \<Rightarrow> additionalInfo obj),
         dlReservoirDomain :=
           (case upd_dlReservoirDomain updates of Some v \<Rightarrow> Some v
            | None \<Rightarrow> dlReservoirDomain obj),
         category := (case upd_category updates of Some v \<Rightarrow> Some v | None \<Rightarrow> category obj)\<rparr>"

definition updateObjectInVideo ::
  "string \<Rightarrow> string \<Rightarrow> object_updates \<Rightarrow> hook_state \<Rightarrow> hook_state" where
  "updateObjectInVideo videoId objectId updates s =
     s\<lparr>videos :=
          map (\<lambda>video. if vid video = videoId
                        then video\<lparr>detectedObjects :=
                                     map (\<lambda>obj. if obj_id obj = objectId
                                                 then merge_updates obj updates else obj)
                                       (detectedObjects video)\<rparr>
                        else video)
            (videos s)\<rparr>"

section \<open>The player's handlers that write to the catalog\<close>

text \<open>\<open>Array.prototype.join\<close> with the separator the notice uses.\<close>

fun join_names :: "string list \<Rightarrow> string" where
  "join_names [] = []"
| "join_names [n] = n"
| "join_names (n # ns) = n @ '', '' @ join_names ns"

text \<open>The \<open>forEach\<close> over the drawn regions in \<open>saveDrawingsAndDownloadWebVTT\<close>, from
  position \<open>index\<close> on. \<open>video\<close> and \<open>listed\<close> are the component's props \<open>video\<close> and
  \<open>detectedObjects\<close>,
  \<open>snapshot\<close> the list its \<open>onAddNewObject\<close> closes over, and \<open>fresh k\<close> the id tail and
  the random value of the call for region \<open>k\<close>.\<close>

fun add_drawn_areas ::
  "VideoInfo option \<Rightarrow> DetectedObject list \<Rightarrow> VideoInfo list \<Rightarrow> (nat \<Rightarrow> string \<times> real)
     \<Rightarrow> nat \<Rightarrow> DrawnArea list \<Rightarrow> hook_state \<Rightarrow> string list \<times> hook_state" where
  "add_drawn_areas video listed snapshot fresh index [] h = ([], h)"
| "add_drawn_areas video listed snapshot fresh index (area # rest) h =
     (let objectName = object_name (length listed + index + 1)
      in case video of
           Some v \<Rightarrow>
             (let (addedObjectName, h1) =
                    addNewObjectToVideo snapshot (vid v) (Some objectName)
                      (fst (fresh index)) (snd (fresh index)) h;
                  (addedObjects, h2) =
                    add_drawn_areas video listed snapshot fresh (index + 1) rest h1
              in (addedObjectName # addedObjects, h2))
         | None \<Rightarrow> add_drawn_areas video listed snapshot fresh (index + 1) rest h)"

text \<open>The handler up to its request for the cue file: the names added, the notice, and
  the two states.\<close>

definition saveDrawingsAndDownloadWebVTT ::
  "VideoInfo option \<Rightarrow> DetectedObject list \<Rightarrow> VideoInfo list \<Rightarrow> (nat \<Rightarrow> string \<times> real)
     \<Rightarrow> player_state \<Rightarrow> hook_state \<Rightarrow> string list \<times> toast option \<times> player_state \<times> hook_state" where
  "saveDrawingsAndDownloadWebVTT video listed snapshot fresh p h =
     (let (addedObjects, h') =
            add_drawn_areas video listed snapshot fresh 0 (drawnAreas p) h
      in (addedObjects,
          (if length addedObjects > 0
           then Some (ObjectsAdded (length addedObjects) (join_names addedObjects)) else None),
          p\<lparr>drawnAreas := [], hasObjectChanges := False\<rparr>,
          h'))"

text \<open>The export button as the page wires it: the props are the selected video, its
  objects and the hook's callback of the same render.\<close>

definition export_click ::
  "(nat \<Rightarrow> string \<times> real) \<Rightarrow> player_state \<Rightarrow> hook_state
     \<Rightarrow> string list \<times> toast option \<times> player_state \<times> hook_state" where
  "export_click fresh p h =
     saveDrawingsAndDownloadWebVTT (selectedVideo h) (selectedVideoObjects h) (videos h) fresh p h"

text \<open>\<open>confirmDelete\<close>, with \<open>video\<close> the component's prop; the page always passes
  \<open>onDeleteObject\<close>.\<close>

definition confirmDelete ::
  "VideoInfo option \<Rightarrow> player_state \<Rightarrow> hook_state \<Rightarrow> player_state \<times> hook_state" where
  "confirmDelete video p h =
     (case (objectToDelete p, video) of
        (Some target, Some v) \<Rightarrow>
          if target \<noteq> [] \<and> deleteConfirmed p then
            (if target = ''BULK_DELETE'' then
               (p\<lparr>selectedObjectIds := [], hasObjectChanges := True,
                  showDeleteConfirmModal := False, objectToDelete := None,
                  deleteConfirmed := False\<rparr>,
                fold (\<lambda>objectId. deleteObjectFromVideo (vid v) objectId) (selectedObjectIds p) h)
             else
               (p\<lparr>hasObjectChanges := True, selectedObjectId := None, isEditing := False,
                  showDeleteConfirmModal := False, objectToDelete := None,
                  deleteConfirmed := False\<rparr>,
                deleteObjectFromVideo (vid v) target h))
          else (p, h)
      | _ \<Rightarrow> (p, h))"

subsection \<open>The player's own detection run\<close>

text \<open>The player keeps a detection flag and a progress value of its own; its refresh
  button, which is never disabled, calls its \<open>runObjectDetection\<close>. Each timer this
  starts closes over the props of the render of the click: the video's id and the
  \<open>onRunObjectDetection\<close> instance, which is the hook's callback and is recorded here by
  the \<open>isDetecting\<close> value that instance captured.\<close>

record player_detection =
  player_isDetecting :: bool
  player_detectionProgress :: real
  player_intervals :: "(string \<times> bool) list"
  player_pendingResets :: nat

definition initial_detection :: player_detection where
  "initial_detection =
     \<lparr>player_isDetecting = False, player_detectionProgress = 0, player_intervals = [],
      player_pendingResets = 0\<rparr>"

text \<open>\<open>video\<close> and \<open>onRunCaptured\<close> are the props of the render in which the button is
  clicked.\<close>

definition player_runObjectDetection ::
  "VideoInfo option \<Rightarrow> bool \<Rightarrow> player_detection \<Rightarrow> player_detection" where
  "player_runObjectDetection video onRunCaptured d =
     (case video of
        None \<Rightarrow> d
      | Some v \<Rightarrow>
          d\<lparr>player_isDetecting := True, player_detectionProgress := 0,
            player_intervals := player_intervals d @ [(vid v, onRunCaptured)]\<rparr>)"

text \<open>One firing of the player's timer at position \<open>i\<close>, with \<open>r\<close> the value of
  \<open>Math.random()\<close>: on reaching 100 it stops itself and calls the hook's callback instance
  it holds.\<close>

definition player_detectionTick ::
  "nat \<Rightarrow> real \<Rightarrow> player_detection \<Rightarrow> hook_state \<Rightarrow> player_detection \<times> hook_state" where
  "player_detectionTick i r d h =
     (if i \<ge> length (player_intervals d) then (d, h)
      else
        (let videoId = fst (player_intervals d ! i);
             onRunCaptured = snd (player_intervals d ! i);
             newProgress = player_detectionProgress d + r * 15 + 5
         in if newProgress \<ge> 100 then
              (d\<lparr>player_intervals :=
                    take i (player_intervals d) @ drop (Suc i) (player_intervals d),
                  player_isDetecting := False,
                  player_detectionProgress := 100,
                  player_pendingResets := Suc (player_pendingResets d)\<rparr>,
               runObjectDetection onRunCaptured videoId h)
            else (d\<lparr>player_detectionProgress := min newProgress 100\<rparr>, h)))"

text \<open>A sequence of firings, each given by the position of its timer and its random
  value.\<close>

fun player_ticks ::
  "(nat \<times> real) list \<Rightarrow> player_detection \<times> hook_state \<Rightarrow> player_detection \<times> hook_state" where
  "player_ticks [] dh = dh"
| "player_ticks ((i, r) # rest) dh = player_ticks rest (player_detectionTick i r (fst dh) (snd dh))"

section \<open>The cue-file route of the server (videoUpload.ts)\<close>

text \<open>The pattern \<open>\.[^/.]+$\<close> matched at the start of a string: a dot, then one or more
  characters other than slash and dot, up to the end.\<close>

definition ext_char :: "char \<Rightarrow> bool" where
  "ext_char c = (c \<noteq> CHR ''/'' \<and> c \<noteq> CHR ''.'')"

definition matches_extension :: "string \<Rightarrow> bool" where
  "matches_extension str =
     (case str of [] \<Rightarrow> False | c # r \<Rightarrow> c = CHR ''.'' \<and> r \<noteq> [] \<and> list_all ext_char r)"

text \<open>\<open>id.replace(pattern, "")\<close>: the leftmost match, which runs to the end, is removed.\<close>

fun strip_extension :: "string \<Rightarrow> string" where
  "strip_extension [] = []"
| "strip_extension (c # r) = (if matches_extension (c # r) then [] else c # strip_extension r)"

datatype vtt_response = NotFound404 | Download string string

text \<open>The handler of \<open>GET /:id/vtt\<close>. Node's \<open>path.join\<close> and \<open>fs.existsSync\<close> are
  parameters; \<open>Download p n\<close> sends the file at \<open>p\<close> as an attachment named \<open>n\<close>.\<close>

definition get_vtt ::
  "(string \<Rightarrow> string \<Rightarrow> string) \<Rightarrow> (string \<Rightarrow> bool) \<Rightarrow> string \<Rightarrow> string \<Rightarrow> vtt_response" where
  "get_vtt path_join existsSync uploadDir id_param =
     (let ident = strip_extension id_param;
          vttPath = path_join uploadDir (ident @ ''.vtt'')
      in if \<not> existsSync vttPath then NotFound404
         else Download vttPath (ident @ ''.vtt''))"

section \<open>Sessions as sequences of catalog operations\<close>

text \<open>The catalog and the creation counter of the first video with a given id, which is
  the one \<open>find\<close> returns.\<close>

definition catalog :: "string \<Rightarrow> hook_state \<Rightarrow> DetectedObject list" where
  "catalog videoId s =
     (case find (\<lambda>v. vid v = videoId) (videos s) of None \<Rightarrow> [] | Some v \<Rightarrow> detectedObjects v)"

definition counter :: "string \<Rightarrow> hook_state \<Rightarrow> nat" where
  "counter videoId s =
     (case find (\<lambda>v. vid v = videoId) (videos s) of None \<Rightarrow> 0 | Some v \<Rightarrow> totalObjectsCreated v)"

text \<open>The operations a session applies to one video: adding an object (with the video
  list the callback instance closes over, the name passed if any, and the id tail and
  random value), deleting an object, asking for detection (with the \<open>isDetecting\<close> value
  the callback instance captured), and one firing of a detection timer.\<close>

datatype catalog_op =
  AddObject "VideoInfo list" "string option" string real
  | DeleteObject string
  | StartDetection bool
  | TimerTick nat real "nat \<Rightarrow> string"

fun apply_op :: "string \<Rightarrow> catalog_op \<Rightarrow> hook_state \<Rightarrow> hook_state" where
  "apply_op videoId (AddObject snapshot objectName suffix rnd) s =
     snd (addNewObjectToVideo snapshot videoId objectName suffix rnd s)"
| "apply_op videoId (DeleteObject objectId) s = deleteObjectFromVideo videoId objectId s"
| "apply_op videoId (StartDetection isDetectingCaptured) s =
     runObjectDetection isDetectingCaptured videoId s"
| "apply_op videoId (TimerTick i r sfx) s = detectionTick i r sfx s"

fun run_ops :: "string \<Rightarrow> catalog_op list \<Rightarrow> hook_state \<Rightarrow> hook_state" where
  "run_ops videoId [] s = s"
| "run_ops videoId (op # ops) s = run_ops videoId ops (apply_op videoId op s)"

text \<open>Every add of the sequence goes through the callback instance of the render it
  happens in (its snapshot is the video list of that moment) and passes no name.\<close>

fun current_default_adds :: "string \<Rightarrow> catalog_op list \<Rightarrow> hook_state \<Rightarrow> bool" where
  "current_default_adds videoId [] s = True"
| "current_default_adds videoId (op # ops) s =
     ((case op of
         AddObject snapshot objectName suffix rnd \<Rightarrow>
           snapshot = videos s \<and> (objectName = None \<or> objectName = Some [])
       | _ \<Rightarrow> True)
      \<and> current_default_adds videoId ops (apply_op videoId op s))"

text \<open>The names of the objects an operation appends to the catalog, and those a whole
  sequence appends, in order.\<close>

definition names_created :: "string \<Rightarrow> catalog_op \<Rightarrow> hook_state \<Rightarrow> string list" where
  "names_created videoId op s =
     map name (drop (length (catalog videoId s)) (catalog videoId (apply_op videoId op s)))"

fun all_created :: "string \<Rightarrow> catalog_op list \<Rightarrow> hook_state \<Rightarrow> string list" where
  "all_created videoId [] s = []"
| "all_created videoId (op # ops) s =
     names_created videoId op s @ all_created videoId ops (apply_op videoId op s)"

section \<open>Example inputs\<close>

text \<open>A 640 by 360 canvas whose corner is at (100, 50) in the viewport, and states reached
  by running the handlers from the initial state with an initialised canvas: drawing
  switched on, a press at canvas point (10, 10), a freehand stroke of three points, and
  a rectangle followed by a freehand stroke.\<close>

definition example_canvas :: canvas_element where
  "example_canvas = \<lparr>rect_left = 100, rect_top = 50, canvas_width = 640,
     canvas_height = 360, has_context = True\<rparr>"

definition at_client :: "real \<Rightarrow> real \<Rightarrow> mouse_event" where
  "at_client cx cy = \<lparr>clientX = cx, clientY = cy\<rparr>"

definition armed_player :: player_state where
  "armed_player = toggleDrawing (initial_player\<lparr>canvasInitialized := True\<rparr>)"

definition pressed_player :: player_state where
  "pressed_player = handleMouseDown (Some example_canvas) (at_client 110 60) armed_player"

definition freehand_player :: player_state where
  "freehand_player =
     handleMouseMove (Some example_canvas) (at_client 160 60)
       (handleMouseMove (Some example_canvas) (at_client 120 60)
         (handleMouseDown (Some example_canvas) (at_client 110 60)
           (armed_player\<lparr>drawingMode := FreeMode\<rparr>)))"

definition two_regions_player :: player_state where
  "two_regions_player =
     handleMouseUp (Some example_canvas) (at_client 160 60) ''3-abc''
       (handleMouseMove (Some example_canvas) (at_client 160 60)
         (handleMouseMove (Some example_canvas) (at_client 120 60)
           (handleMouseDown (Some example_canvas) (at_client 110 60)
             ((handleMouseUp (Some example_canvas) (at_client 160 90) ''1-abc'' pressed_player)
                \<lparr>drawingMode := FreeMode\<rparr>))))"

text \<open>The binary64 values nearest to 0.1, 0.7, 5.7, 30.1, 59.9 and 64.9, a canvas at the
  origin of the viewport and one whose left edge is at 0.1, and states reached on them: a
  press at client (60, 10) on the offset canvas, a press at (0.7, 10), a stroke whose ends
  are exactly 30 apart, a stroke from 0.1 to 30.1, and a stroke of two points.\<close>

definition b64_0_1 :: real where "b64_0_1 = 3602879701896397 / 36028797018963968"
definition b64_0_7 :: real where "b64_0_7 = 3152519739159347 / 4503599627370496"
definition b64_5_7 :: real where "b64_5_7 = 6417629469002957 / 1125899906842624"
definition b64_30_1 :: real where "b64_30_1 = 4236198399495373 / 140737488355328"
definition b64_59_9 :: real where "b64_59_9 = 8430175552484147 / 140737488355328"
definition b64_64_9 :: real where "b64_64_9 = 2283465748565197 / 35184372088832"

definition origin_canvas :: canvas_element where
  "origin_canvas = \<lparr>rect_left = 0, rect_top = 0, canvas_width = 640,
     canvas_height = 360, has_context = True\<rparr>"

definition offset_canvas :: canvas_element where
  "offset_canvas = \<lparr>rect_left = b64_0_1, rect_top = 0, canvas_width = 640,
     canvas_height = 360, has_context = True\<rparr>"

definition offset_pressed_player :: player_state where
  "offset_pressed_player = handleMouseDown (Some offset_canvas) (at_client 60 10) armed_player"

definition fraction_pressed_player :: player_state where
  "fraction_pressed_player =
     handleMouseDown (Some origin_canvas) (at_client b64_0_7 10) armed_player"

definition short_freehand_player :: player_state where
  "short_freehand_player =
     handleMouseMove (Some example_canvas) (at_client 140 60)
       (handleMouseMove (Some example_canvas) (at_client 120 60)
         (handleMouseDown (Some example_canvas) (at_client 110 60)
           (armed_player\<lparr>drawingMode := FreeMode\<rparr>)))"

definition near_freehand_player :: player_state where
  "near_freehand_player =
     handleMouseMove (Some origin_canvas) (at_client b64_30_1 10)
       (handleMouseMove (Some origin_canvas) (at_client 15 10)
         (handleMouseDown (Some origin_canvas) (at_client b64_0_1 10)
           (armed_player\<lparr>drawingMode := FreeMode\<rparr>)))"

definition two_point_player :: player_state where
  "two_point_player =
     handleMouseMove (Some example_canvas) (at_client 160 60)
       (handleMouseDown (Some example_canvas) (at_client 110 60)
         (armed_player\<lparr>drawingMode := FreeMode\<rparr>))"

text \<open>A \<open>path.join\<close> for names without dots or slashes in the way.\<close>

definition plain_join :: "string \<Rightarrow> string \<Rightarrow> string" where
  "plain_join d n = d @ ''/'' @ n"

text \<open>The session of the end-to-end scenario: \<open>clip.mp4\<close> uploaded under the id
  \<open>171234.mp4\<close>, detection run to completion in six timer firings, and the second
  default object deleted. \<open>detected_object k conf\<close> is the object detection makes of the
  default entry at position \<open>k\<close>.\<close>

definition example_file :: File where
  "example_file = \<lparr>file_name = ''clip.mp4'', file_type = ''video/mp4'', file_size = 201\<rparr>"

definition uploaded_hook :: hook_state where
  "uploaded_hook = fst (handleFileSelect example_file (ResponseOk (Some ''171234.mp4'')) 1000 initial_hook)"

definition detected_hook :: hook_state where
  "detected_hook = detection_run ''171234.mp4'' [7 / 8, 7 / 8, 7 / 8, 7 / 8, 7 / 8, 7 / 8] (\<lambda>i. ''t'') uploaded_hook"

definition example_video :: "DetectedObject list \<Rightarrow> nat \<Rightarrow> VideoInfo" where
  "example_video objs n = \<lparr>vid = ''171234.mp4'', video_file = example_file, duration = 0,
     currentTime = 0, detectedObjects = objs, totalObjectsCreated = n, uploadDate = 1000\<rparr>"

definition detected_object :: "nat \<Rightarrow> real \<Rightarrow> DetectedObject" where
  "detected_object k conf =
     \<lparr>obj_id = ''171234.mp4-obj-'' @ string_of_nat k @ ''-t'', name = object_name (k + 1),
      confidence = conf, selected = False, code = Some (''CODE_OBJ00'' @ string_of_nat (k + 1)),
      additionalInfo = Some auto_detected_info,
      dlReservoirDomain = Some ''http://www.naver.com'', category = Some category_other\<rparr>"

definition deleted_hook :: hook_state where
  "deleted_hook = deleteObjectFromVideo ''171234.mp4'' ''171234.mp4-obj-1-t'' detected_hook"

definition bulk_delete_player :: player_state where
  "bulk_delete_player = initial_player
     \<lparr>selectedObjectIds := [''171234.mp4-obj-0-t'', ''171234.mp4-obj-1-t'', ''gone''],
      objectToDelete := Some ''BULK_DELETE'', showDeleteConfirmModal := True,
      deleteConfirmed := True\<rparr>"

definition rename_patch :: object_updates where
  "rename_patch = \<lparr>upd_name = Some ''Bottle'', upd_code = None, upd_additionalInfo = None,
     upd_dlReservoirDomain = None, upd_category = Some ''GTIN''\<rparr>"

definition second_file :: File where
  "second_file = \<lparr>file_name = ''other.mp4'', file_type = ''video/mp4'', file_size = 4096\<rparr>"

text \<open>Two sessions of operations on the uploaded video, each add going through the
  callback of its render: one object added and deleted and then a detection run; and two
  objects added and the first deleted.\<close>

definition first_added_hook :: hook_state where
  "first_added_hook =
     snd (addNewObjectToVideo (videos uploaded_hook) ''171234.mp4'' None ''n1'' (1 / 2)
            uploaded_hook)"

definition reuse_ops :: "catalog_op list" where
  "reuse_ops =
     [AddObject (videos uploaded_hook) None ''n1'' (1 / 2),
      DeleteObject ''171234.mp4-new-n1'', StartDetection False,
      TimerTick 0 (7 / 8) (\<lambda>i. ''t''), TimerTick 0 (7 / 8) (\<lambda>i. ''t''),
      TimerTick 0 (7 / 8) (\<lambda>i. ''t''), TimerTick 0 (7 / 8) (\<lambda>i. ''t''),
      TimerTick 0 (7 / 8) (\<lambda>i. ''t''), TimerTick 0 (7 / 8) (\<lambda>i. ''t'')]"

definition create_create_delete :: "catalog_op list" where
  "create_create_delete =
     [AddObject (videos uploaded_hook) None ''n1'' (1 / 2),
      AddObject (videos first_added_hook) None ''n2'' (1 / 2),
      DeleteObject ''171234.mp4-new-n1'']"

text \<open>Two clicks on the player's refresh button while the hook is idle, the six firings
  of the two timers (in turn, random value 7/8) that bring the shared progress to 100, and
  the next firing of the timer that is left.\<close>

definition two_refresh_clicks :: player_detection where
  "two_refresh_clicks =
     player_runObjectDetection (Some (example_video [] 0)) (isDetecting uploaded_hook)
       (player_runObjectDetection (Some (example_video [] 0)) (isDetecting uploaded_hook)
          initial_detection)"

definition first_completion :: "player_detection \<times> hook_state" where
  "first_completion =
     player_ticks [(0, 7 / 8), (1, 7 / 8), (0, 7 / 8), (1, 7 / 8), (0, 7 / 8), (1, 7 / 8)]
       (two_refresh_clicks, uploaded_hook)"

definition second_completion :: "player_detection \<times> hook_state" where
  "second_completion = player_ticks [(0, 7 / 8)] first_completion"

section \<open>Binary64 rounding: exact values and the instances used below\<close>

lemma round_half_even_of_int: "round_half_even (of_int j) = j"
  by (simp add: round_half_even_def)

lemma exponent_search_lower: "e - int n \<le> exponent_search x e n"
proof (induction n arbitrary: e)
  case 0
  show ?case by simp
next
  case (Suc n)
  from Suc [of "e - 1"] show ?case by simp
qed

lemma exponent_search_found:
  "e - int n < exponent_search x e n \<Longrightarrow> 2 powi (exponent_search x e n) \<le> \<bar>x\<bar>"
proof (induction n arbitrary: e)
  case 0
  then show ?case by simp
next
  case (Suc n)
  show ?case
  proof (cases "2 powi e \<le> \<bar>x\<bar>")
    case True
    then show ?thesis by simp
  next
    case False
    with Suc.prems have "e - 1 - int n < exponent_search x (e - 1) n" by simp
    from Suc.IH [OF this] False show ?thesis by simp
  qed
qed

lemma exponent_search_unique:
  assumes "2 powi e0 \<le> \<bar>x\<bar>" and "\<bar>x\<bar> < 2 powi (e0 + 1)"
  shows "e0 \<le> e \<Longrightarrow> e - e0 \<le> int n \<Longrightarrow> exponent_search x e n = e0"
proof (induction n arbitrary: e)
  case 0
  then show ?case by simp
next
  case (Suc n)
  show ?case
  proof (cases "e = e0")
    case True
    with assms(1) show ?thesis by simp
  next
    case False
    with Suc.prems have "e0 + 1 \<le> e" by simp
    then have "(2::real) powi (e0 + 1) \<le> 2 powi e" by (intro power_int_increasing) simp_all
    with assms(2) have "\<not> 2 powi e \<le> \<bar>x\<bar>" by simp
    moreover from Suc.prems False have "exponent_search x (e - 1) n = e0"
      by (intro Suc.IH) simp_all
    ultimately show ?thesis by simp
  qed
qed

lemma binary_exponent_eq:
  assumes "2 powi e0 \<le> \<bar>x\<bar>" and "\<bar>x\<bar> < 2 powi (e0 + 1)" and "- 1022 \<le> e0" and "e0 \<le> 1023"
  shows "binary_exponent x = e0"
  unfolding binary_exponent_def using assms by (intro exponent_search_unique) simp_all

lemma binary_exponent_lower: "- 1022 \<le> binary_exponent x"
  using exponent_search_lower [of 1023 2045 x] by (simp add: binary_exponent_def)

lemma binary_exponent_found:
  "- 1022 < binary_exponent x \<Longrightarrow> 2 powi (binary_exponent x) \<le> \<bar>x\<bar>"
  using exponent_search_found [of 1023 2045 x] by (simp add: binary_exponent_def)

text \<open>A binary64 value, an integer below \<open>2^53\<close> in size times a power of two from
  \<open>2^(-1074)\<close> on, rounds to itself.\<close>

lemma round64_exact:
  assumes x: "x = of_int m * 2 powi k" and m: "\<bar>m\<bar> < 2 ^ 53" and k: "- 1074 \<le> k"
  shows "round64 x = x"
proof -
  let ?e = "binary_exponent x"
  have le: "?e - 52 \<le> k"
  proof (cases "?e = - 1022")
    case True
    with k show ?thesis by simp
  next
    case False
    with binary_exponent_lower [of x] have "- 1022 < ?e" by simp
    then have "2 powi ?e \<le> \<bar>x\<bar>" by (rule binary_exponent_found)
    also have "\<bar>x\<bar> = of_int \<bar>m\<bar> * 2 powi k" by (simp add: x abs_mult)
    also have "\<dots> < 2 ^ 53 * 2 powi k"
      using m by (intro mult_strict_right_mono) (simp_all add: of_int_less_iff [where 'a = real, symmetric] del: of_int_less_iff)
    also have "\<dots> = 2 powi (53 + k)" by (simp add: power_int_add)
    finally have "(2::real) powi ?e < 2 powi (53 + k)" .
    then have "?e < 53 + k"
      using power_int_increasing [of "53 + k" ?e "2::real"] by (cases "?e < 53 + k") simp_all
    then show ?thesis by simp
  qed
  define d where "d = nat (k - (?e - 52))"
  from le have kd: "k = (?e - 52) + int d" by (simp add: d_def)
  have "x / 2 powi (?e - 52) = of_int m * 2 ^ d"
    by (subst x, subst kd) (simp add: power_int_add)
  also have "\<dots> = of_int (m * 2 ^ d)" by simp
  finally have "round_half_even (x / 2 powi (?e - 52)) = m * 2 ^ d"
    by (simp only: round_half_even_of_int)
  then have "round64 x = of_int (m * 2 ^ d) * 2 powi (?e - 52)"
    by (simp add: round64_def Let_def)
  also have "\<dots> = of_int m * 2 powi k"
    by (subst kd) (simp add: power_int_add)
  finally show ?thesis by (simp add: x)
qed

lemma round64_numeral [simp]:
  "numeral n < (2::int) ^ 53 \<Longrightarrow> round64 (numeral n) = numeral n"
  using round64_exact [of "numeral n" "numeral n" 0] by simp

lemma round64_neg_numeral [simp]:
  "numeral n < (2::int) ^ 53 \<Longrightarrow> round64 (- numeral n) = - numeral n"
  using round64_exact [of "- numeral n" "- numeral n" 0] by simp

lemma round64_0 [simp]: "round64 0 = 0"
  using round64_exact [of 0 0 0] by simp

lemma round64_1 [simp]: "round64 1 = 1"
  using round64_exact [of 1 1 0] by simp

text \<open>The rounded value is at least as near to the number as any binary64 value is.\<close>

lemma round_half_even_nearest:
  "\<bar>of_int (round_half_even t) - t\<bar> \<le> \<bar>of_int j - t\<bar>"
proof -
  define n where "n = \<lfloor>t\<rfloor>"
  have lo: "of_int n \<le> t" and hi: "t < of_int n + 1"
    by (simp_all add: n_def)
  consider "j \<le> n" | "n + 1 \<le> j" by linarith
  then have far: "of_int j \<le> (of_int n :: real) \<or> (of_int n :: real) + 1 \<le> of_int j"
  proof cases
    case 1
    then have "(of_int j :: real) \<le> of_int n" by (simp only: of_int_le_iff)
    then show ?thesis by simp
  next
    case 2
    then have "(of_int (n + 1) :: real) \<le> of_int j" by (simp only: of_int_le_iff)
    then show ?thesis by simp
  qed
  have r: "round_half_even t = n \<and> t - of_int n \<le> 1 / 2
      \<or> round_half_even t = n + 1 \<and> 1 / 2 \<le> t - of_int n"
    by (auto simp: round_half_even_def Let_def n_def)
  from r far lo hi show ?thesis by auto
qed

lemma round64_nearest_multiple:
  "\<bar>round64 x - x\<bar> \<le> \<bar>of_int j * 2 powi (binary_exponent x - 52) - x\<bar>"
proof -
  define q :: real where "q = 2 powi (binary_exponent x - 52)"
  have q: "0 < q" by (simp add: q_def)
  have "\<bar>round64 x - x\<bar> = \<bar>(of_int (round_half_even (x / q)) - x / q) * q\<bar>"
    using q by (simp add: round64_def Let_def q_def [symmetric] left_diff_distrib)
  also have "\<dots> = \<bar>of_int (round_half_even (x / q)) - x / q\<bar> * q"
    using q by (simp add: abs_mult)
  also have "\<dots> \<le> \<bar>of_int j - x / q\<bar> * q"
    using q round_half_even_nearest [of "x / q" j] by (intro mult_right_mono) simp_all
  also have "\<dots> = \<bar>(of_int j - x / q) * q\<bar>"
    using q by (simp add: abs_mult)
  also have "\<dots> = \<bar>of_int j * q - x\<bar>"
    using q by (simp add: left_diff_distrib)
  finally show ?thesis by (simp add: q_def)
qed

lemma round64_nearest:
  assumes y: "y = of_int m * 2 powi k" and m: "\<bar>m\<bar> < 2 ^ 53" and k: "- 1074 \<le> k"
  shows "\<bar>round64 x - x\<bar> \<le> \<bar>y - x\<bar>"
proof (cases "binary_exponent x - 52 \<le> k")
  case True
  define d where "d = nat (k - (binary_exponent x - 52))"
  from True have kd: "k = (binary_exponent x - 52) + int d" by (simp add: d_def)
  have "y = of_int (m * 2 ^ d) * 2 powi (binary_exponent x - 52)"
    by (subst y, subst kd) (simp add: power_int_add)
  with round64_nearest_multiple [of x "m * 2 ^ d"] show ?thesis by simp
next
  case False
  let ?e = "binary_exponent x"
  from False k have e: "- 1022 < ?e" and ke: "k + 53 \<le> ?e" by simp_all
  from e have big: "2 powi ?e \<le> \<bar>x\<bar>" by (rule binary_exponent_found)
  have "\<bar>y\<bar> = of_int \<bar>m\<bar> * 2 powi k" by (simp add: y abs_mult)
  also have "\<dots> < 2 ^ 53 * 2 powi k"
    using m by (intro mult_strict_right_mono)
      (simp_all add: of_int_less_iff [where 'a = real, symmetric] del: of_int_less_iff)
  also have "\<dots> = 2 powi (k + 53)" by (simp add: power_int_add)
  also have "\<dots> \<le> 2 powi ?e" using ke by (intro power_int_increasing) simp_all
  finally have small: "\<bar>y\<bar> < 2 powi ?e" .
  have b: "2 powi ?e = of_int (2 ^ 52) * (2::real) powi (?e - 52)"
    by (simp add: power_int_diff)
  show ?thesis
  proof (cases "0 \<le> x")
    case True
    from round64_nearest_multiple [of x "2 ^ 52"] b
    have "\<bar>round64 x - x\<bar> \<le> \<bar>2 powi ?e - x\<bar>" by simp
    also from True big small have "\<dots> \<le> \<bar>y - x\<bar>" by linarith
    finally show ?thesis .
  next
    case neg: False
    from round64_nearest_multiple [of x "- (2 ^ 52)"] b
    have "\<bar>round64 x - x\<bar> \<le> \<bar>- (2 powi ?e) - x\<bar>" by simp
    also from neg big small have "\<dots> \<le> \<bar>y - x\<bar>" by linarith
    finally show ?thesis .
  qed
qed

text \<open>The rounding at the operands of the examples, each from the exponent of the
  operand.\<close>

lemma round64_b64_0_1: "round64 (3602879701896397 / 36028797018963968) = 3602879701896397 / 36028797018963968"
proof -
  have e: "binary_exponent (3602879701896397 / 36028797018963968) = - 4"
    by (rule binary_exponent_eq) simp_all
  show ?thesis
    unfolding round64_def e by (simp add: round_half_even_def Let_def)
qed

lemma round64_b64_30_1: "round64 (4236198399495373 / 140737488355328) = 4236198399495373 / 140737488355328"
proof -
  have e: "binary_exponent (4236198399495373 / 140737488355328) = 4"
    by (rule binary_exponent_eq) simp_all
  show ?thesis
    unfolding round64_def e by (simp add: round_half_even_def Let_def)
qed

lemma round64_diff_30: "round64 (- (1080863910568919091 / 36028797018963968)) = - 30"
proof -
  have e: "binary_exponent (- (1080863910568919091 / 36028797018963968)) = 4"
    by (rule binary_exponent_eq) simp_all
  show ?thesis
    unfolding round64_def e by (simp add: round_half_even_def Let_def)
qed

lemma round64_b64_0_7: "round64 (3152519739159347 / 4503599627370496) = 3152519739159347 / 4503599627370496"
proof -
  have e: "binary_exponent (3152519739159347 / 4503599627370496) = - 1"
    by (rule binary_exponent_eq) simp_all
  show ?thesis
    unfolding round64_def e by (simp add: round_half_even_def Let_def)
qed

lemma round64_b64_5_7: "round64 (6417629469002957 / 1125899906842624) = 6417629469002957 / 1125899906842624"
proof -
  have e: "binary_exponent (6417629469002957 / 1125899906842624) = 2"
    by (rule binary_exponent_eq) simp_all
  show ?thesis
    unfolding round64_def e by (simp add: round_half_even_def Let_def)
qed

lemma round64_diff_5: "round64 (22517998136852481 / 4503599627370496) = 5"
proof -
  have e: "binary_exponent (22517998136852481 / 4503599627370496) = 2"
    by (rule binary_exponent_eq) simp_all
  show ?thesis
    unfolding round64_def e by (simp add: round_half_even_def Let_def)
qed

lemma round64_60_minus_0_1: "round64 (2158124941435941683 / 36028797018963968) = 8430175552484147 / 140737488355328"
proof -
  have e: "binary_exponent (2158124941435941683 / 36028797018963968) = 5"
    by (rule binary_exponent_eq) simp_all
  show ?thesis
    unfolding round64_def e by (simp add: round_half_even_def Let_def)
qed

lemma round64_65_minus_0_1: "round64 (2338268926530761523 / 36028797018963968) = 2283465748565197 / 35184372088832"
proof -
  have e: "binary_exponent (2338268926530761523 / 36028797018963968) = 6"
    by (rule binary_exponent_eq) simp_all
  show ?thesis
    unfolding round64_def e by (simp add: round_half_even_def Let_def)
qed

lemma round64_diff_5_up: "round64 (703687441776641 / 140737488355328) = 703687441776641 / 140737488355328"
proof -
  have e: "binary_exponent (703687441776641 / 140737488355328) = 2"
    by (rule binary_exponent_eq) simp_all
  show ?thesis
    unfolding round64_def e by (simp add: round_half_even_def Let_def)
qed

section \<open>Region capture: rectangles, freehand paths and the drawing toggle\<close>

lemma armed_player_eq:
  "armed_player = initial_player\<lparr>canvasInitialized := True, isDrawing := True, showAdminPanel := False\<rparr>"
  by (simp add: armed_player_def toggleDrawing_def initial_player_def Let_def)

lemma pressed_player_eq:
  "pressed_player = initial_player\<lparr>canvasInitialized := True, isDrawing := True,
     showAdminPanel := False, isMouseDown := True, rectangleStart := Some \<lparr>pt_x = 10, pt_y = 10\<rparr>\<rparr>"
  by (simp add: pressed_player_def armed_player_eq initial_player_def handleMouseDown_def
      getCanvasCoordinates_def example_canvas_def at_client_def Let_def)

lemma offset_pressed_player_eq:
  "offset_pressed_player = initial_player\<lparr>canvasInitialized := True, isDrawing := True,
     showAdminPanel := False, isMouseDown := True,
     rectangleStart := Some \<lparr>pt_x = b64_59_9, pt_y = 10\<rparr>\<rparr>"
  by (simp add: offset_pressed_player_def armed_player_eq initial_player_def handleMouseDown_def
      getCanvasCoordinates_def offset_canvas_def at_client_def Let_def b64_0_1_def b64_59_9_def
      round64_60_minus_0_1)

lemma fraction_pressed_player_eq:
  "fraction_pressed_player = initial_player\<lparr>canvasInitialized := True, isDrawing := True,
     showAdminPanel := False, isMouseDown := True,
     rectangleStart := Some \<lparr>pt_x = b64_0_7, pt_y = 10\<rparr>\<rparr>"
  by (simp add: fraction_pressed_player_def armed_player_eq initial_player_def handleMouseDown_def
      getCanvasCoordinates_def origin_canvas_def at_client_def Let_def b64_0_7_def
      round64_b64_0_7)

lemma freehand_player_eq:
  "freehand_player = initial_player\<lparr>canvasInitialized := True, isDrawing := True,
     showAdminPanel := False, drawingMode := FreeMode, isMouseDown := True,
     currentPath := [\<lparr>pt_x = 10, pt_y = 10\<rparr>, \<lparr>pt_x = 20, pt_y = 10\<rparr>, \<lparr>pt_x = 60, pt_y = 10\<rparr>]\<rparr>"
  by (simp add: freehand_player_def armed_player_eq initial_player_def handleMouseDown_def
      handleMouseMove_def getCanvasCoordinates_def example_canvas_def at_client_def Let_def)

lemma short_freehand_player_eq:
  "short_freehand_player = initial_player\<lparr>canvasInitialized := True, isDrawing := True,
     showAdminPanel := False, drawingMode := FreeMode, isMouseDown := True,
     currentPath := [\<lparr>pt_x = 10, pt_y = 10\<rparr>, \<lparr>pt_x = 20, pt_y = 10\<rparr>, \<lparr>pt_x = 40, pt_y = 10\<rparr>]\<rparr>"
  by (simp add: short_freehand_player_def armed_player_eq initial_player_def handleMouseDown_def
      handleMouseMove_def getCanvasCoordinates_def example_canvas_def at_client_def Let_def)

lemma near_freehand_player_eq:
  "near_freehand_player = initial_player\<lparr>canvasInitialized := True, isDrawing := True,
     showAdminPanel := False, drawingMode := FreeMode, isMouseDown := True,
     currentPath := [\<lparr>pt_x = b64_0_1, pt_y = 10\<rparr>, \<lparr>pt_x = 15, pt_y = 10\<rparr>,
                     \<lparr>pt_x = b64_30_1, pt_y = 10\<rparr>]\<rparr>"
  by (simp add: near_freehand_player_def armed_player_eq initial_player_def handleMouseDown_def
      handleMouseMove_def getCanvasCoordinates_def origin_canvas_def at_client_def Let_def
      b64_0_1_def b64_30_1_def round64_b64_0_1 round64_b64_30_1)

lemma two_point_player_eq:
  "two_point_player = initial_player\<lparr>canvasInitialized := True, isDrawing := True,
     showAdminPanel := False, drawingMode := FreeMode, isMouseDown := True,
     currentPath := [\<lparr>pt_x = 10, pt_y = 10\<rparr>, \<lparr>pt_x = 60, pt_y = 10\<rparr>]\<rparr>"
  by (simp add: two_point_player_def armed_player_eq initial_player_def handleMouseDown_def
      handleMouseMove_def getCanvasCoordinates_def example_canvas_def at_client_def Let_def)


text \<open>
  C2 (amended). A rectangle drag from the anchor \<open>p\<close> to the release point \<open>q\<close> (both in
  canvas coordinates) commits exactly one rectangle when the differences \<open>q.x - p.x\<close> and
  \<open>q.y - p.y\<close>, as the handler computes them in binary64, are both above 5 in absolute
  value: its start point is the componentwise minimum and its end point the componentwise
  maximum of \<open>p\<close> and \<open>q\<close>, so the start is not right of or below the end. Any other drag
  leaves the region list as it was.
\<close>

theorem rectangle_drag_commit:
  assumes "isDrawing s" and "isMouseDown s" and "canvasInitialized s" and "\<not> isErasing s"
    and "drawingMode s = RectangleMode" and "rectangleStart s = Some p"
  shows "(let q = getCanvasCoordinates canvas e; s' = handleMouseUp canvas e suffix s in
          if \<bar>round64 (pt_x q - pt_x p)\<bar> > 5 \<and> \<bar>round64 (pt_y q - pt_y p)\<bar> > 5 then
            drawnAreas s' = drawnAreas s @
              [\<lparr>area_id = ''rect-'' @ suffix, points = [], color = ''#ef4444'',
                area_kind = Rectangle,
                startPoint = Some \<lparr>pt_x = min (pt_x p) (pt_x q), pt_y = min (pt_y p) (pt_y q)\<rparr>,
                endPoint = Some \<lparr>pt_x = max (pt_x p) (pt_x q), pt_y = max (pt_y p) (pt_y q)\<rparr>\<rparr>]
            \<and> min (pt_x p) (pt_x q) \<le> max (pt_x p) (pt_x q)
            \<and> min (pt_y p) (pt_y q) \<le> max (pt_y p) (pt_y q)
          else drawnAreas s' = drawnAreas s)"
  using assms by (auto simp add: handleMouseUp_def Let_def)

theorem rectangle_drag_commit_witness:
  "isDrawing pressed_player \<and> isMouseDown pressed_player \<and> canvasInitialized pressed_player
   \<and> \<not> isErasing pressed_player \<and> drawingMode pressed_player = RectangleMode
   \<and> rectangleStart pressed_player = Some \<lparr>pt_x = 10, pt_y = 10\<rparr>
   \<and> drawnAreas (handleMouseUp (Some example_canvas) (at_client 160 90) ''1-abc'' pressed_player) =
     [\<lparr>area_id = ''rect-1-abc'', points = [], color = ''#ef4444'', area_kind = Rectangle,
       startPoint = Some \<lparr>pt_x = 10, pt_y = 10\<rparr>, endPoint = Some \<lparr>pt_x = 60, pt_y = 40\<rparr>\<rparr>]
   \<and> drawnAreas (handleMouseUp (Some example_canvas) (at_client 113 90) ''2-abc'' pressed_player) = []
   \<and> drawnAreas (handleMouseUp (Some example_canvas) (at_client 115 90) ''2-abc'' pressed_player) = []
   \<and> rectangleStart offset_pressed_player = Some \<lparr>pt_x = b64_59_9, pt_y = 10\<rparr>
   \<and> drawnAreas (handleMouseUp (Some offset_canvas) (at_client 65 20) ''3-abc''
        offset_pressed_player) =
     [\<lparr>area_id = ''rect-3-abc'', points = [], color = ''#ef4444'', area_kind = Rectangle,
       startPoint = Some \<lparr>pt_x = b64_59_9, pt_y = 10\<rparr>,
       endPoint = Some \<lparr>pt_x = b64_64_9, pt_y = 20\<rparr>\<rparr>]"
proof -
  have q1: "getCanvasCoordinates (Some example_canvas) (at_client 160 90) = \<lparr>pt_x = 60, pt_y = 40\<rparr>"
    and q2: "getCanvasCoordinates (Some example_canvas) (at_client 113 90) = \<lparr>pt_x = 13, pt_y = 40\<rparr>"
    and q3: "getCanvasCoordinates (Some example_canvas) (at_client 115 90) = \<lparr>pt_x = 15, pt_y = 40\<rparr>"
    by (simp_all add: getCanvasCoordinates_def example_canvas_def at_client_def Let_def)
  have q4: "getCanvasCoordinates (Some offset_canvas) (at_client 65 20) =
      \<lparr>pt_x = b64_64_9, pt_y = 20\<rparr>"
    by (simp add: getCanvasCoordinates_def offset_canvas_def at_client_def Let_def
        b64_0_1_def b64_64_9_def round64_65_minus_0_1)
  have w4: "round64 (b64_64_9 - b64_59_9) = 703687441776641 / 140737488355328"
    by (simp add: b64_64_9_def b64_59_9_def round64_diff_5_up)
  note c1 = rectangle_drag_commit [of pressed_player "\<lparr>pt_x = 10, pt_y = 10\<rparr>"
      "Some example_canvas" "at_client 160 90" "''1-abc''"]
  note c2 = rectangle_drag_commit [of pressed_player "\<lparr>pt_x = 10, pt_y = 10\<rparr>"
      "Some example_canvas" "at_client 113 90" "''2-abc''"]
  note c3 = rectangle_drag_commit [of pressed_player "\<lparr>pt_x = 10, pt_y = 10\<rparr>"
      "Some example_canvas" "at_client 115 90" "''2-abc''"]
  note c4 = rectangle_drag_commit [of offset_pressed_player "\<lparr>pt_x = b64_59_9, pt_y = 10\<rparr>"
      "Some offset_canvas" "at_client 65 20" "''3-abc''"]
  have a: "drawnAreas (handleMouseUp (Some example_canvas) (at_client 160 90) ''1-abc'' pressed_player) =
     [\<lparr>area_id = ''rect-1-abc'', points = [], color = ''#ef4444'', area_kind = Rectangle,
       startPoint = Some \<lparr>pt_x = 10, pt_y = 10\<rparr>, endPoint = Some \<lparr>pt_x = 60, pt_y = 40\<rparr>\<rparr>]"
    using c1 unfolding q1 by (simp add: pressed_player_eq initial_player_def Let_def)
  have b: "drawnAreas (handleMouseUp (Some example_canvas) (at_client 113 90) ''2-abc'' pressed_player) = []"
    using c2 unfolding q2 by (simp add: pressed_player_eq initial_player_def Let_def)
  have c: "drawnAreas (handleMouseUp (Some example_canvas) (at_client 115 90) ''2-abc'' pressed_player) = []"
    using c3 unfolding q3 by (simp add: pressed_player_eq initial_player_def Let_def)
  have d: "drawnAreas (handleMouseUp (Some offset_canvas) (at_client 65 20) ''3-abc''
        offset_pressed_player) =
     [\<lparr>area_id = ''rect-3-abc'', points = [], color = ''#ef4444'', area_kind = Rectangle,
       startPoint = Some \<lparr>pt_x = b64_59_9, pt_y = 10\<rparr>,
       endPoint = Some \<lparr>pt_x = b64_64_9, pt_y = 20\<rparr>\<rparr>]"
  proof -
    have le: "b64_59_9 \<le> b64_64_9" by (simp add: b64_59_9_def b64_64_9_def)
    from c4 show ?thesis
      unfolding q4 by (simp add: offset_pressed_player_eq initial_player_def Let_def w4 le
          min_absorb1 max_absorb2)
  qed
  from a b c d show ?thesis
    by (simp add: pressed_player_eq offset_pressed_player_eq initial_player_def)
qed

text \<open>C2 as the specification states it, with the exact differences, does not hold at
  the threshold: from 0.7 to 5.7 the exact difference is above 5, the computed one is 5,
  and nothing is committed.\<close>

theorem rounded_delta_counterexample:
  "isDrawing fraction_pressed_player \<and> isMouseDown fraction_pressed_player
   \<and> canvasInitialized fraction_pressed_player \<and> \<not> isErasing fraction_pressed_player
   \<and> drawingMode fraction_pressed_player = RectangleMode
   \<and> rectangleStart fraction_pressed_player = Some \<lparr>pt_x = b64_0_7, pt_y = 10\<rparr>
   \<and> getCanvasCoordinates (Some origin_canvas) (at_client b64_5_7 20) =
       \<lparr>pt_x = b64_5_7, pt_y = 20\<rparr>
   \<and> \<bar>b64_5_7 - b64_0_7\<bar> > 5 \<and> \<bar>20 - 10 :: real\<bar> > 5
   \<and> drawnAreas (handleMouseUp (Some origin_canvas) (at_client b64_5_7 20) ''4-abc''
        fraction_pressed_player) = drawnAreas fraction_pressed_player"
  by (simp add: fraction_pressed_player_eq initial_player_def handleMouseUp_def
      getCanvasCoordinates_def origin_canvas_def at_client_def Let_def b64_0_7_def b64_5_7_def
      round64_b64_5_7 round64_diff_5)


text \<open>
  C3 (amended). A freehand capture commits a path on pointer-up only if it has collected
  more than two points. The stored sequence is the captured one, followed by a copy of its
  first point when the distance between the first and the last point, computed in
  binary64 as the square root of the sum of the squared coordinate differences with every
  step rounded, is above 30. With two or fewer points nothing is committed.
\<close>

theorem freehand_commit:
  assumes "isDrawing s" and "isMouseDown s" and "canvasInitialized s" and "\<not> isErasing s"
    and "drawingMode s = FreeMode"
  shows "(let path = currentPath s; a = hd path; b = last path;
              s' = handleMouseUp canvas e suffix s in
          if length path > 2 then
            drawnAreas s' = drawnAreas s @
              [\<lparr>area_id = ''path-'' @ suffix,
                points =
                  (if round64 (sqrt (round64
                        (round64 ((round64 (pt_x a - pt_x b))\<^sup>2) +
                         round64 ((round64 (pt_y a - pt_y b))\<^sup>2)))) > 30
                   then path @ [a] else path),
                color = ''#ef4444'', area_kind = Path, startPoint = None, endPoint = None\<rparr>]
          else drawnAreas s' = drawnAreas s)"
  using assms by (simp add: handleMouseUp_def closedPath_def distance_def Let_def)

theorem freehand_commit_witness:
  "isDrawing freehand_player \<and> isMouseDown freehand_player \<and> canvasInitialized freehand_player
   \<and> \<not> isErasing freehand_player \<and> drawingMode freehand_player = FreeMode
   \<and> drawnAreas (handleMouseUp (Some example_canvas) (at_client 160 60) ''3-abc'' freehand_player) =
     [\<lparr>area_id = ''path-3-abc'',
       points = [\<lparr>pt_x = 10, pt_y = 10\<rparr>, \<lparr>pt_x = 20, pt_y = 10\<rparr>, \<lparr>pt_x = 60, pt_y = 10\<rparr>,
                 \<lparr>pt_x = 10, pt_y = 10\<rparr>],
       color = ''#ef4444'', area_kind = Path, startPoint = None, endPoint = None\<rparr>]
   \<and> drawnAreas (handleMouseUp (Some example_canvas) (at_client 140 60) ''4-abc''
        short_freehand_player) =
     [\<lparr>area_id = ''path-4-abc'',
       points = [\<lparr>pt_x = 10, pt_y = 10\<rparr>, \<lparr>pt_x = 20, pt_y = 10\<rparr>, \<lparr>pt_x = 40, pt_y = 10\<rparr>],
       color = ''#ef4444'', area_kind = Path, startPoint = None, endPoint = None\<rparr>]
   \<and> drawnAreas (handleMouseUp (Some example_canvas) (at_client 160 60) ''5-abc''
        two_point_player) = []"
proof -
  note c1 = freehand_commit [of freehand_player "Some example_canvas" "at_client 160 60" "''3-abc''"]
  note c2 = freehand_commit [of short_freehand_player "Some example_canvas" "at_client 140 60"
      "''4-abc''"]
  note c3 = freehand_commit [of two_point_player "Some example_canvas" "at_client 160 60"
      "''5-abc''"]
  have a: "drawnAreas (handleMouseUp (Some example_canvas) (at_client 160 60) ''3-abc'' freehand_player) =
     [\<lparr>area_id = ''path-3-abc'',
       points = [\<lparr>pt_x = 10, pt_y = 10\<rparr>, \<lparr>pt_x = 20, pt_y = 10\<rparr>, \<lparr>pt_x = 60, pt_y = 10\<rparr>,
                 \<lparr>pt_x = 10, pt_y = 10\<rparr>],
       color = ''#ef4444'', area_kind = Path, startPoint = None, endPoint = None\<rparr>]"
    using c1 by (simp add: freehand_player_eq initial_player_def Let_def)
  have b: "drawnAreas (handleMouseUp (Some example_canvas) (at_client 140 60) ''4-abc''
        short_freehand_player) =
     [\<lparr>area_id = ''path-4-abc'',
       points = [\<lparr>pt_x = 10, pt_y = 10\<rparr>, \<lparr>pt_x = 20, pt_y = 10\<rparr>, \<lparr>pt_x = 40, pt_y = 10\<rparr>],
       color = ''#ef4444'', area_kind = Path, startPoint = None, endPoint = None\<rparr>]"
    using c2 by (simp add: short_freehand_player_eq initial_player_def Let_def)
  have c: "drawnAreas (handleMouseUp (Some example_canvas) (at_client 160 60) ''5-abc''
        two_point_player) = []"
    using c3 by (simp add: two_point_player_eq initial_player_def Let_def)
  from a b c show ?thesis
    by (simp add: freehand_player_eq initial_player_def)
qed

text \<open>C3 as the specification states it, with the exact Euclidean distance, does not
  hold at the threshold: for ends at 0.1 and 30.1 the exact distance is above 30, the
  computed one is 30, and the path is stored as captured.\<close>

theorem rounded_distance_counterexample:
  "isDrawing near_freehand_player \<and> isMouseDown near_freehand_player
   \<and> canvasInitialized near_freehand_player \<and> \<not> isErasing near_freehand_player
   \<and> drawingMode near_freehand_player = FreeMode
   \<and> currentPath near_freehand_player =
       [\<lparr>pt_x = b64_0_1, pt_y = 10\<rparr>, \<lparr>pt_x = 15, pt_y = 10\<rparr>, \<lparr>pt_x = b64_30_1, pt_y = 10\<rparr>]
   \<and> sqrt ((b64_0_1 - b64_30_1)\<^sup>2 + (10 - 10)\<^sup>2) > 30
   \<and> drawnAreas (handleMouseUp (Some origin_canvas) (at_client b64_30_1 10) ''6-abc''
        near_freehand_player) =
     [\<lparr>area_id = ''path-6-abc'',
       points = [\<lparr>pt_x = b64_0_1, pt_y = 10\<rparr>, \<lparr>pt_x = 15, pt_y = 10\<rparr>,
                 \<lparr>pt_x = b64_30_1, pt_y = 10\<rparr>],
       color = ''#ef4444'', area_kind = Path, startPoint = None, endPoint = None\<rparr>]"
proof -
  have d: "round64 (b64_0_1 - b64_30_1) = - 30"
    by (simp add: b64_0_1_def b64_30_1_def round64_diff_30)
  have far: "sqrt ((b64_0_1 - b64_30_1)\<^sup>2 + (10 - 10)\<^sup>2) > 30"
    by (simp add: b64_0_1_def b64_30_1_def)
  have "drawnAreas (handleMouseUp (Some origin_canvas) (at_client b64_30_1 10) ''6-abc''
        near_freehand_player) =
     [\<lparr>area_id = ''path-6-abc'',
       points = [\<lparr>pt_x = b64_0_1, pt_y = 10\<rparr>, \<lparr>pt_x = 15, pt_y = 10\<rparr>,
                 \<lparr>pt_x = b64_30_1, pt_y = 10\<rparr>],
       color = ''#ef4444'', area_kind = Path, startPoint = None, endPoint = None\<rparr>]"
    by (simp add: near_freehand_player_eq initial_player_def handleMouseUp_def closedPath_def
        distance_def d Let_def)
  with far show ?thesis
    by (simp add: near_freehand_player_eq initial_player_def)
qed


text \<open>
  C10. Switching drawing off in the middle of a capture clears the current path, the
  rectangle anchor, the preview rectangle, the erase flag and the mouse-down flag, and
  leaves the committed regions as they were; the pointer-up that follows commits nothing.
\<close>

theorem toggle_off_discards:
  assumes "isDrawing s"
  shows "(let s' = toggleDrawing s in
          \<not> isDrawing s' \<and> currentPath s' = [] \<and> rectangleStart s' = None
          \<and> currentRectangle s' = None \<and> \<not> isErasing s' \<and> \<not> isMouseDown s'
          \<and> drawnAreas s' = drawnAreas s
          \<and> handleMouseUp canvas e suffix s' = s')"
  using assms by (simp add: toggleDrawing_def handleMouseUp_def Let_def split: option.split)

theorem toggle_off_discards_witness:
  "isDrawing pressed_player \<and> rectangleStart pressed_player \<noteq> None
   \<and> rectangleStart (toggleDrawing pressed_player) = None
   \<and> drawnAreas (toggleDrawing pressed_player) = drawnAreas pressed_player
   \<and> handleMouseUp (Some example_canvas) (at_client 160 90) ''1-abc'' (toggleDrawing pressed_player)
       = toggleDrawing pressed_player"
  using toggle_off_discards [of pressed_player "Some example_canvas" "at_client 160 90" "''1-abc''"]
  by (simp add: pressed_player_eq initial_player_def Let_def)

section \<open>The cue-file route\<close>

lemma strip_extension_no_dot:
  "CHR ''.'' \<notin> set str \<Longrightarrow> strip_extension str = str"
  by (induction str) (auto simp: matches_extension_def)

lemma strip_extension_append:
  "ext \<noteq> [] \<Longrightarrow> list_all ext_char ext \<Longrightarrow> strip_extension (stem @ CHR ''.'' # ext) = stem"
proof (induction stem)
  case Nil
  then show ?case by (simp add: matches_extension_def)
next
  case (Cons c stem)
  have "\<not> matches_extension ((c # stem) @ CHR ''.'' # ext)"
    by (simp add: matches_extension_def ext_char_def)
  with Cons show ?case by simp
qed

lemma strip_extension_invalid:
  assumes "CHR ''.'' \<notin> set ext" and "ext = [] \<or> CHR ''/'' \<in> set ext"
  shows "strip_extension (stem @ CHR ''.'' # ext) = stem @ CHR ''.'' # ext"
proof (induction stem)
  case Nil
  from assms(2) have "\<not> matches_extension (CHR ''.'' # ext)"
    by (auto simp: matches_extension_def ext_char_def list_all_iff)
  with assms(1) show ?case by (simp add: strip_extension_no_dot)
next
  case (Cons c stem)
  have "\<not> matches_extension ((c # stem) @ CHR ''.'' # ext)"
    by (simp add: matches_extension_def ext_char_def)
  with Cons show ?case by simp
qed

text \<open>
  C8. An id that ends in an extension (a dot followed by one or more characters other
  than dot and slash) is looked up under its stem with \<open>.vtt\<close> appended, so
  \<open>171234.mp4\<close> resolves to \<open>171234.vtt\<close>. An id without an extension, which is one
  with no dot, or one whose last dot is followed by nothing or by a part with a slash, is
  looked up as \<open>id.vtt\<close>. In every case the answer is 404 when that file does not
  exist, and the file as a download otherwise.
\<close>

theorem vtt_lookup:
  "(ext \<noteq> [] \<and> list_all ext_char ext \<longrightarrow>
      strip_extension (stem @ CHR ''.'' # ext) = stem)
   \<and> (CHR ''.'' \<notin> set ident \<longrightarrow> strip_extension ident = ident)
   \<and> (CHR ''.'' \<notin> set tail \<and> (tail = [] \<or> CHR ''/'' \<in> set tail) \<longrightarrow>
      strip_extension (stem @ CHR ''.'' # tail) = stem @ CHR ''.'' # tail)
   \<and> get_vtt path_join existsSync uploadDir id_param =
       (if existsSync (path_join uploadDir (strip_extension id_param @ ''.vtt''))
        then Download (path_join uploadDir (strip_extension id_param @ ''.vtt''))
               (strip_extension id_param @ ''.vtt'')
        else NotFound404)"
  by (simp add: get_vtt_def Let_def strip_extension_append strip_extension_no_dot
      strip_extension_invalid)

theorem vtt_lookup_witness:
  "strip_extension ''171234.mp4'' = ''171234''
   \<and> strip_extension ''171234'' = ''171234''
   \<and> strip_extension ''clip.'' = ''clip.''
   \<and> get_vtt plain_join (\<lambda>p. p = ''uploads/171234.mp4'') ''uploads'' ''171234.mp4'' = NotFound404
   \<and> get_vtt plain_join (\<lambda>p. p = ''uploads/171234.vtt'') ''uploads'' ''171234.mp4''
       = Download ''uploads/171234.vtt'' ''171234.vtt''
   \<and> get_vtt plain_join (\<lambda>p. p = ''uploads/171234.vtt'') ''uploads'' ''171234''
       = Download ''uploads/171234.vtt'' ''171234.vtt''"
proof -
  note a = vtt_lookup [of "''mp4''" "''171234''" "''171234''" "[]" plain_join
      "\<lambda>p. p = ''uploads/171234.mp4''" "''uploads''" "''171234.mp4''"]
  note b = vtt_lookup [of "''mp4''" "''171234''" "''171234''" "[]" plain_join
      "\<lambda>p. p = ''uploads/171234.vtt''" "''uploads''" "''171234.mp4''"]
  note c = vtt_lookup [of "''mp4''" "''clip''" "''171234''" "[]" plain_join
      "\<lambda>p. p = ''uploads/171234.vtt''" "''uploads''" "''171234''"]
  have s1: "strip_extension ''171234.mp4'' = ''171234''"
    using a by (simp add: ext_char_def)
  have s2: "strip_extension ''171234'' = ''171234''"
    using a by simp
  have s3: "strip_extension ''clip.'' = ''clip.''"
    using c by simp
  from a b c s1 s2 s3 show ?thesis
    by (simp add: plain_join_def)
qed

section \<open>The catalog: evaluation and naming lemmas\<close>

lemma string_of_digit: "n < 10 \<Longrightarrow> string_of_nat n = [digit_char n]"
  by (subst string_of_nat.simps) simp

lemma uploaded_hook_eq:
  "uploaded_hook = initial_hook\<lparr>videos := [example_video [] 0]\<rparr>"
  by (simp add: uploaded_hook_def handleFileSelect_def starts_with_def example_file_def
      example_video_def)

lemma detected_hook_eq:
  "detected_hook = initial_hook
     \<lparr>videos := [example_video
        [detected_object 0 (95 / 100), detected_object 1 (87 / 100), detected_object 2 (92 / 100),
         detected_object 3 (78 / 100), detected_object 4 (84 / 100)] 5],
      detectionProgress := 100, hasRunDetection := True,
      selectedVideoId := Some ''171234.mp4'', pendingResets := 1\<rparr>"
  by (simp add: detected_hook_def uploaded_hook_eq detection_run_def runObjectDetection_def
      detectionTick_def populate_def DEFAULT_OBJECTS_def initial_hook_def example_video_def
      detected_object_def object_name_def string_of_digit digit_char_def Let_def)

lemma deleted_hook_eq:
  "deleted_hook = initial_hook
     \<lparr>videos := [example_video
        [detected_object 0 (95 / 100), detected_object 2 (92 / 100),
         detected_object 3 (78 / 100), detected_object 4 (84 / 100)] 5],
      detectionProgress := 100, hasRunDetection := True,
      selectedVideoId := Some ''171234.mp4'', pendingResets := 1\<rparr>"
  by (simp add: deleted_hook_def detected_hook_eq deleteObjectFromVideo_def initial_hook_def
      example_video_def detected_object_def string_of_digit digit_char_def)

text \<open>Different numbers have different decimal strings, so different default names.\<close>

lemma digit_char_inj:
  assumes "a < 10" and "b < 10" and "digit_char a = digit_char b"
  shows "a = b"
proof -
  from \<open>a < 10\<close> have a: "a = 0 \<or> a = 1 \<or> a = 2 \<or> a = 3 \<or> a = 4 \<or> a = 5 \<or> a = 6 \<or> a = 7 \<or> a = 8 \<or> a = 9"
    by arith
  from \<open>b < 10\<close> have b: "b = 0 \<or> b = 1 \<or> b = 2 \<or> b = 3 \<or> b = 4 \<or> b = 5 \<or> b = 6 \<or> b = 7 \<or> b = 8 \<or> b = 9"
    by arith
  from a b assms(3) show ?thesis
    by (elim disjE) (simp_all add: digit_char_def)
qed

lemma length_string_of_nat_pos: "length (string_of_nat n) > 0"
  by (subst string_of_nat.simps) simp

lemma length_string_of_nat_ge10:
  assumes "n \<ge> 10"
  shows "length (string_of_nat n) \<ge> 2"
proof -
  have "length (string_of_nat n) = length (string_of_nat (n div 10)) + 1"
    using assms by (subst string_of_nat.simps) simp
  with length_string_of_nat_pos [of "n div 10"] show ?thesis by linarith
qed

lemma string_of_nat_inj: "string_of_nat n = string_of_nat m \<Longrightarrow> n = m"
proof (induction n arbitrary: m rule: string_of_nat.induct)
  case (1 n)
  show ?case
  proof (cases "n < 10")
    case True
    then have sn: "string_of_nat n = [digit_char n]" by (subst string_of_nat.simps) simp
    show ?thesis
    proof (cases "m < 10")
      case True
      then have "string_of_nat m = [digit_char m]" by (subst string_of_nat.simps) simp
      with sn "1.prems" have "digit_char n = digit_char m" by simp
      with \<open>n < 10\<close> \<open>m < 10\<close> show ?thesis by (rule digit_char_inj)
    next
      case False
      then have "length (string_of_nat m) \<ge> 2" by (simp add: length_string_of_nat_ge10)
      with sn "1.prems" show ?thesis by simp
    qed
  next
    case False
    then have sn: "string_of_nat n = string_of_nat (n div 10) @ [digit_char (n mod 10)]"
      by (subst string_of_nat.simps) simp
    show ?thesis
    proof (cases "m < 10")
      case True
      then have "string_of_nat m = [digit_char m]" by (subst string_of_nat.simps) simp
      moreover from False have "length (string_of_nat n) \<ge> 2"
        by (simp add: length_string_of_nat_ge10)
      ultimately show ?thesis using "1.prems" by simp
    next
      case mge: False
      then have sm: "string_of_nat m = string_of_nat (m div 10) @ [digit_char (m mod 10)]"
        by (subst string_of_nat.simps) simp
      from sn sm "1.prems" have eq1: "string_of_nat (n div 10) = string_of_nat (m div 10)"
        and eq2: "digit_char (n mod 10) = digit_char (m mod 10)" by simp_all
      from "1.IH" [OF False eq1] have d: "n div 10 = m div 10" .
      have "n mod 10 = m mod 10" by (rule digit_char_inj [OF _ _ eq2]) simp_all
      with d show ?thesis by (metis div_mult_mod_eq)
    qed
  qed
qed

lemma object_name_inj: "object_name n = object_name m \<Longrightarrow> n = m"
  by (simp add: object_name_def string_of_nat_inj)

text \<open>The handlers map over the video list and keep every id, so \<open>find\<close> commutes with
  them.\<close>

lemma find_map_vid:
  assumes "\<And>v. vid (f v) = vid v"
  shows "find (\<lambda>v. vid v = i) (map f xs) = map_option f (find (\<lambda>v. vid v = i) xs)"
  by (induction xs) (simp_all add: assms)

lemma find_vid_SomeD: "find (\<lambda>v. vid v = i) xs = Some v \<Longrightarrow> vid v = i"
  by (induction xs) (auto split: if_splits)

section \<open>Deleting and updating objects\<close>

lemma videos_deleteObjectFromVideo:
  "videos (deleteObjectFromVideo videoId objectId h) =
     map (\<lambda>video. if vid video = videoId
                   then video\<lparr>detectedObjects :=
                          filter (\<lambda>obj. obj_id obj \<noteq> objectId) (detectedObjects video)\<rparr>
                   else video) (videos h)"
  by (simp add: deleteObjectFromVideo_def)

lemma fold_delete_videos:
  "videos (fold (deleteObjectFromVideo videoId) ids h) =
     map (\<lambda>video. if vid video = videoId
                   then video\<lparr>detectedObjects :=
                          filter (\<lambda>obj. obj_id obj \<notin> set ids) (detectedObjects video)\<rparr>
                   else video) (videos h)"
proof (induction ids arbitrary: h)
  case Nil
  then show ?case by (simp add: map_idI)
next
  case (Cons i ids)
  have "videos (fold (deleteObjectFromVideo videoId) (i # ids) h) =
        videos (fold (deleteObjectFromVideo videoId) ids (deleteObjectFromVideo videoId i h))"
    by simp
  also have "\<dots> = map (\<lambda>video. if vid video = videoId
                   then video\<lparr>detectedObjects :=
                          filter (\<lambda>obj. obj_id obj \<notin> set ids) (detectedObjects video)\<rparr>
                   else video) (videos (deleteObjectFromVideo videoId i h))"
    by (rule Cons.IH)
  also have "\<dots> = map (\<lambda>video. if vid video = videoId
                   then video\<lparr>detectedObjects :=
                          filter (\<lambda>obj. obj_id obj \<notin> set (i # ids)) (detectedObjects video)\<rparr>
                   else video) (videos h)"
    unfolding videos_deleteObjectFromVideo map_map
    by (rule map_cong) (auto intro: filter_cong)
  finally show ?case .
qed

text \<open>
  C6. A confirmed bulk deletion removes from the video's catalog exactly the objects whose
  ids are among the selected ids and keeps the others in their order; an id that no
  object has changes nothing and raises nothing.
\<close>

theorem bulk_delete_exact:
  assumes "objectToDelete p = Some ''BULK_DELETE''" and "deleteConfirmed p"
  shows "videos (snd (confirmDelete (Some v) p h)) =
     map (\<lambda>video. if vid video = vid v
                   then video\<lparr>detectedObjects :=
                          filter (\<lambda>obj. obj_id obj \<notin> set (selectedObjectIds p)) (detectedObjects video)\<rparr>
                   else video) (videos h)"
  using assms by (simp add: confirmDelete_def fold_delete_videos)

theorem bulk_delete_exact_witness:
  "objectToDelete bulk_delete_player = Some ''BULK_DELETE'' \<and> deleteConfirmed bulk_delete_player
   \<and> map name (catalog ''171234.mp4'' detected_hook)
       = [''Object(1)'', ''Object(2)'', ''Object(3)'', ''Object(4)'', ''Object(5)'']
   \<and> catalog ''171234.mp4'' (snd (confirmDelete (selectedVideo detected_hook) bulk_delete_player detected_hook))
       = [detected_object 2 (92 / 100), detected_object 3 (78 / 100), detected_object 4 (84 / 100)]"
proof -
  have sel: "selectedVideo detected_hook = Some (example_video
        [detected_object 0 (95 / 100), detected_object 1 (87 / 100), detected_object 2 (92 / 100),
         detected_object 3 (78 / 100), detected_object 4 (84 / 100)] 5)"
    by (simp add: selectedVideo_def detected_hook_eq initial_hook_def example_video_def)
  have hyps: "objectToDelete bulk_delete_player = Some ''BULK_DELETE''"
    "deleteConfirmed bulk_delete_player"
    by (simp_all add: bulk_delete_player_def initial_player_def)
  note step = bulk_delete_exact [OF hyps, of "example_video
        [detected_object 0 (95 / 100), detected_object 1 (87 / 100), detected_object 2 (92 / 100),
         detected_object 3 (78 / 100), detected_object 4 (84 / 100)] 5" detected_hook]
  have ids: "selectedObjectIds bulk_delete_player =
      [''171234.mp4-obj-0-t'', ''171234.mp4-obj-1-t'', ''gone'']"
    by (simp add: bulk_delete_player_def initial_player_def)
  have before: "map name (catalog ''171234.mp4'' detected_hook)
       = [''Object(1)'', ''Object(2)'', ''Object(3)'', ''Object(4)'', ''Object(5)'']"
    by (simp add: catalog_def detected_hook_eq initial_hook_def example_video_def
        detected_object_def object_name_def string_of_digit digit_char_def)
  have after: "catalog ''171234.mp4''
       (snd (confirmDelete (selectedVideo detected_hook) bulk_delete_player detected_hook))
       = [detected_object 2 (92 / 100), detected_object 3 (78 / 100), detected_object 4 (84 / 100)]"
    unfolding catalog_def sel step ids
    by (simp add: detected_hook_eq initial_hook_def example_video_def detected_object_def
        string_of_digit digit_char_def)
  from hyps before after show ?thesis by simp
qed

lemma catalog_updateObjectInVideo:
  "catalog videoId (updateObjectInVideo videoId objectId updates s) =
     map (\<lambda>obj. if obj_id obj = objectId then merge_updates obj updates else obj)
       (catalog videoId s)"
proof -
  let ?f = "\<lambda>video. if vid video = videoId
                        then video\<lparr>detectedObjects :=
                                     map (\<lambda>obj. if obj_id obj = objectId
                                                 then merge_updates obj updates else obj)
                                       (detectedObjects video)\<rparr>
                        else video"
  have "find (\<lambda>v. vid v = videoId) (map ?f (videos s)) =
        map_option ?f (find (\<lambda>v. vid v = videoId) (videos s))"
    by (rule find_map_vid) simp
  then show ?thesis
    by (cases "find (\<lambda>v. vid v = videoId) (videos s)")
      (auto simp: catalog_def updateObjectInVideo_def dest: find_vid_SomeD)
qed

lemma updateObjectInVideo_noop:
  assumes "\<forall>video \<in> set (videos s). vid video = videoId \<longrightarrow>
             (\<forall>obj \<in> set (detectedObjects video). obj_id obj \<noteq> objectId)"
  shows "updateObjectInVideo videoId objectId updates s = s"
proof -
  have "map (\<lambda>video. if vid video = videoId
                        then video\<lparr>detectedObjects :=
                                     map (\<lambda>obj. if obj_id obj = objectId
                                                 then merge_updates obj updates else obj)
                                       (detectedObjects video)\<rparr>
                        else video) (videos s) = videos s"
    using assms by (intro map_idI) (auto simp: map_idI)
  then show ?thesis by (simp add: updateObjectInVideo_def)
qed

text \<open>
  C7. An update gives the matching object the fields the patch has and keeps its other
  fields, its id, confidence and selection flag; the other objects of the catalog stay as
  they are, and when no object of the video has the id the state is unchanged.
\<close>

theorem update_merges_or_noop:
  "(let obj' = merge_updates obj updates in
      obj_id obj' = obj_id obj \<and> confidence obj' = confidence obj \<and> selected obj' = selected obj
      \<and> name obj' = (case upd_name updates of None \<Rightarrow> name obj | Some v \<Rightarrow> v)
      \<and> code obj' = (case upd_code updates of None \<Rightarrow> code obj | Some v \<Rightarrow> Some v)
      \<and> additionalInfo obj' =
          (case upd_additionalInfo updates of None \<Rightarrow> additionalInfo obj | Some v \<Rightarrow> Some v)
      \<and> dlReservoirDomain obj' =
          (case upd_dlReservoirDomain updates of None \<Rightarrow> dlReservoirDomain obj | Some v \<Rightarrow> Some v)
      \<and> category obj' = (case upd_category updates of None \<Rightarrow> category obj | Some v \<Rightarrow> Some v))
   \<and> catalog videoId (updateObjectInVideo videoId objectId updates s) =
       map (\<lambda>obj. if obj_id obj = objectId then merge_updates obj updates else obj)
         (catalog videoId s)
   \<and> ((\<forall>video \<in> set (videos s). vid video = videoId \<longrightarrow>
          (\<forall>obj \<in> set (detectedObjects video). obj_id obj \<noteq> objectId))
        \<longrightarrow> updateObjectInVideo videoId objectId updates s = s)"
proof -
  have fields: "(let obj' = merge_updates obj updates in
      obj_id obj' = obj_id obj \<and> confidence obj' = confidence obj \<and> selected obj' = selected obj
      \<and> name obj' = (case upd_name updates of None \<Rightarrow> name obj | Some v \<Rightarrow> v)
      \<and> code obj' = (case upd_code updates of None \<Rightarrow> code obj | Some v \<Rightarrow> Some v)
      \<and> additionalInfo obj' =
          (case upd_additionalInfo updates of None \<Rightarrow> additionalInfo obj | Some v \<Rightarrow> Some v)
      \<and> dlReservoirDomain obj' =
          (case upd_dlReservoirDomain updates of None \<Rightarrow> dlReservoirDomain obj | Some v \<Rightarrow> Some v)
      \<and> category obj' = (case upd_category updates of None \<Rightarrow> category obj | Some v \<Rightarrow> Some v))"
    by (simp add: merge_updates_def Let_def split: option.split)
  show ?thesis
    using fields catalog_updateObjectInVideo updateObjectInVideo_noop by blast
qed

theorem update_merges_or_noop_witness:
  "catalog ''171234.mp4'' (updateObjectInVideo ''171234.mp4'' ''171234.mp4-obj-1-t'' rename_patch detected_hook)
     = [detected_object 0 (95 / 100),
        (detected_object 1 (87 / 100))\<lparr>name := ''Bottle'', category := Some ''GTIN''\<rparr>,
        detected_object 2 (92 / 100), detected_object 3 (78 / 100), detected_object 4 (84 / 100)]
   \<and> updateObjectInVideo ''171234.mp4'' ''gone'' rename_patch detected_hook = detected_hook"
proof -
  note inst = update_merges_or_noop [of "detected_object 1 (87 / 100)" rename_patch
      "''171234.mp4''" "''171234.mp4-obj-1-t''" detected_hook]
  note noop = update_merges_or_noop [of "detected_object 1 (87 / 100)" rename_patch
      "''171234.mp4''" "''gone''" detected_hook]
  have cat: "catalog ''171234.mp4'' detected_hook =
      [detected_object 0 (95 / 100), detected_object 1 (87 / 100), detected_object 2 (92 / 100),
       detected_object 3 (78 / 100), detected_object 4 (84 / 100)]"
    by (simp add: catalog_def detected_hook_eq initial_hook_def example_video_def)
  have absent: "\<forall>video \<in> set (videos detected_hook). vid video = ''171234.mp4'' \<longrightarrow>
          (\<forall>obj \<in> set (detectedObjects video). obj_id obj \<noteq> ''gone'')"
    by (simp add: detected_hook_eq initial_hook_def example_video_def detected_object_def)
  have first: "catalog ''171234.mp4''
       (updateObjectInVideo ''171234.mp4'' ''171234.mp4-obj-1-t'' rename_patch detected_hook)
     = [detected_object 0 (95 / 100),
        (detected_object 1 (87 / 100))\<lparr>name := ''Bottle'', category := Some ''GTIN''\<rparr>,
        detected_object 2 (92 / 100), detected_object 3 (78 / 100), detected_object 4 (84 / 100)]"
    using inst unfolding cat
    by (simp add: detected_object_def merge_updates_def rename_patch_def
        string_of_digit digit_char_def)
  from noop absent have "updateObjectInVideo ''171234.mp4'' ''gone'' rename_patch detected_hook
      = detected_hook" by blast
  with first show ?thesis by simp
qed

section \<open>Uploading\<close>

text \<open>A successful upload replaces the video list by the one new session, with an empty
  catalog and a counter of 0, and leaves the selection alone; the simulated upload, which
  nothing calls, empties the list when it starts and holds the one new session when it
  ends.\<close>

lemma upload_replaces_list:
  assumes "starts_with ''video/'' (file_type f)" and "file_size f \<le> 2 * 1024 * 1024 * 1024"
  shows "videos (fst (handleFileSelect f (ResponseOk rid) now s)) =
           [\<lparr>vid = (case rid of Some i \<Rightarrow> if i = [] then ''video-'' @ string_of_nat now else i
                          | None \<Rightarrow> ''video-'' @ string_of_nat now),
             video_file = f, duration = 0, currentTime = 0, detectedObjects = [],
             totalObjectsCreated = 0, uploadDate = now\<rparr>]
         \<and> selectedVideoId (fst (handleFileSelect f (ResponseOk rid) now s)) = selectedVideoId s
         \<and> videos (simulateUpload f uploadId r now s) = []
         \<and> videos (fst (simulateUpload_processed f uploadId now s)) =
           [\<lparr>vid = uploadId, video_file = f, duration = 0, currentTime = 0, detectedObjects = [],
             totalObjectsCreated = 0, uploadDate = now\<rparr>]"
  using assms
  by (simp add: handleFileSelect_def simulateUpload_def simulateUpload_processed_def Let_def)

text \<open>
  C9. After video A and then video B are uploaded, both are to be in the video list, and
  the comment at the upload handler says that a successful upload adds the video to the
  list. The handler sets the list to the new video alone: with \<open>171234.mp4\<close> in the
  list, the upload of \<open>171299.mp4\<close> leaves \<open>171299.mp4\<close> as the only video.
\<close>

theorem second_upload_drops_first:
  "''171234.mp4'' \<in> vid ` set (videos uploaded_hook)
   \<and> vid ` set (videos (fst (handleFileSelect second_file (ResponseOk (Some ''171299.mp4'')) 2000
        uploaded_hook))) = {''171299.mp4''}
   \<and> ''171234.mp4'' \<notin> vid ` set (videos (fst (handleFileSelect second_file
        (ResponseOk (Some ''171299.mp4'')) 2000 uploaded_hook)))"
  by (simp add: uploaded_hook_eq handleFileSelect_def starts_with_def second_file_def
      example_video_def)

section \<open>Detection\<close>

lemma vid_populate: "vid (populate videoId sfx video) = vid video"
  by (simp add: populate_def)

lemma catalog_detectionTick:
  assumes "catalog videoId s \<noteq> []"
  shows "catalog videoId (detectionTick i r sfx s) = catalog videoId s"
proof -
  from assms obtain v where v: "find (\<lambda>v. vid v = videoId) (videos s) = Some v"
    and ne: "detectedObjects v \<noteq> []"
    by (auto simp: catalog_def split: option.splits)
  from v have "vid v = videoId" by (rule find_vid_SomeD)
  with ne have keep: "populate w sfx v = v" for w
    by (simp add: populate_def)
  have "find (\<lambda>v. vid v = videoId) (map (populate w sfx) (videos s)) = Some v" for w
    using find_map_vid [of "populate w sfx" videoId "videos s"] v keep
    by (simp add: vid_populate)
  with v show ?thesis
    by (simp add: catalog_def detectionTick_def Let_def)
qed

lemma catalog_runObjectDetection:
  "catalog videoId (runObjectDetection c w s) = catalog videoId s"
  by (simp add: catalog_def runObjectDetection_def)

lemma catalog_run_ticks:
  "catalog videoId s \<noteq> [] \<Longrightarrow> catalog videoId (run_ticks rs sfx s) = catalog videoId s"
  by (induction rs arbitrary: s) (simp_all add: catalog_detectionTick)

text \<open>Detection leaves a catalog that already has objects as it is, at every timer firing
  and over a whole run, so the default set is never added twice.\<close>

lemma detection_keeps_populated_catalog:
  assumes "catalog videoId s \<noteq> []"
  shows "catalog videoId (detectionTick i r sfx s) = catalog videoId s"
    and "catalog videoId (detection_run videoId rs sfx s) = catalog videoId s"
proof -
  show "catalog videoId (detectionTick i r sfx s) = catalog videoId s"
    using assms by (rule catalog_detectionTick)
  from assms have "catalog videoId (runObjectDetection (isDetecting s) videoId s) \<noteq> []"
    by (simp add: catalog_runObjectDetection)
  then show "catalog videoId (detection_run videoId rs sfx s) = catalog videoId s"
    unfolding detection_run_def by (simp add: catalog_run_ticks catalog_runObjectDetection)
qed

text \<open>A callback instance that captured the flag as set does nothing; the instance of the
  current render is one such while detection is under way.\<close>

lemma captured_flag_guards:
  "runObjectDetection True videoId s = s"
  "isDetecting s \<Longrightarrow> runObjectDetection (isDetecting s) videoId s = s"
  by (simp_all add: runObjectDetection_def)

lemma two_refresh_clicks_eq:
  "two_refresh_clicks = initial_detection
     \<lparr>player_isDetecting := True,
      player_intervals := [(''171234.mp4'', False), (''171234.mp4'', False)]\<rparr>"
  by (simp add: two_refresh_clicks_def player_runObjectDetection_def initial_detection_def
      example_video_def uploaded_hook_eq initial_hook_def)

lemma first_completion_eq:
  "first_completion =
     (initial_detection\<lparr>player_detectionProgress := 100,
        player_intervals := [(''171234.mp4'', False)], player_pendingResets := 1\<rparr>,
      uploaded_hook\<lparr>isDetecting := True, intervals := [''171234.mp4'']\<rparr>)"
  by (simp add: first_completion_def two_refresh_clicks_eq player_detectionTick_def
      runObjectDetection_def initial_detection_def uploaded_hook_eq initial_hook_def Let_def)

lemma second_completion_eq:
  "second_completion =
     (initial_detection\<lparr>player_detectionProgress := 100, player_pendingResets := 2\<rparr>,
      uploaded_hook\<lparr>isDetecting := True, intervals := [''171234.mp4'', ''171234.mp4'']\<rparr>)"
  by (simp add: second_completion_def first_completion_eq player_detectionTick_def
      runObjectDetection_def initial_detection_def uploaded_hook_eq initial_hook_def Let_def)

text \<open>
  C5. Detection is to be idempotent: a catalog that has objects stays as it is, which
  holds (\<open>detection_keeps_populated_catalog\<close>), and no run is to start while one is in
  progress. The guard for the latter reads \<open>isDetecting\<close> as the called callback instance
  captured it. After two clicks on the player's refresh button while the hook is idle,
  both of the player's timers hold the instance that captured \<open>false\<close>: the first to
  reach 100 starts a run of the hook, and the other, on its next firing, calls the same
  instance and starts a second run while the first one is in progress.
\<close>

theorem stale_callback_starts_second_run:
  "\<not> isDetecting uploaded_hook
   \<and> player_intervals two_refresh_clicks = [(''171234.mp4'', False), (''171234.mp4'', False)]
   \<and> isDetecting (snd first_completion)
   \<and> intervals (snd first_completion) = [''171234.mp4'']
   \<and> player_intervals (fst first_completion) = [(''171234.mp4'', False)]
   \<and> isDetecting (snd second_completion)
   \<and> intervals (snd second_completion) = [''171234.mp4'', ''171234.mp4'']"
  by (simp add: two_refresh_clicks_eq first_completion_eq second_completion_eq
      initial_detection_def uploaded_hook_eq initial_hook_def)

section \<open>The creation counter and the default names\<close>

lemma find_add:
  "find (\<lambda>v. vid v = videoId) (videos (snd (addNewObjectToVideo snap videoId nm suffix rnd s))) =
   map_option (\<lambda>video. video\<lparr>totalObjectsCreated := totalObjectsCreated video + 1,
        detectedObjects := detectedObjects video @
          [\<lparr>obj_id = videoId @ ''-new-'' @ suffix,
            name = fst (addNewObjectToVideo snap videoId nm suffix rnd s),
            confidence = 85 / 100 + rnd * (15 / 100), selected = False,
            code = Some (''CODE_'' @ map to_upper_char (take 8 (videoId @ ''-new-'' @ suffix))),
            additionalInfo = Some auto_detected_info,
            dlReservoirDomain = Some ''http://www.naver.com'',
            category = Some category_other\<rparr>]\<rparr>)
     (find (\<lambda>v. vid v = videoId) (videos s))"
proof -
  let ?obj = "\<lparr>obj_id = videoId @ ''-new-'' @ suffix,
            name = fst (addNewObjectToVideo snap videoId nm suffix rnd s),
            confidence = 85 / 100 + rnd * (15 / 100), selected = False,
            code = Some (''CODE_'' @ map to_upper_char (take 8 (videoId @ ''-new-'' @ suffix))),
            additionalInfo = Some auto_detected_info,
            dlReservoirDomain = Some ''http://www.naver.com'',
            category = Some category_other\<rparr>"
  let ?f = "\<lambda>video. if vid video = videoId
                 then video\<lparr>totalObjectsCreated := totalObjectsCreated video + 1,
                            detectedObjects := detectedObjects video @ [?obj]\<rparr>
                 else video"
  have v: "videos (snd (addNewObjectToVideo snap videoId nm suffix rnd s)) = map ?f (videos s)"
    by (simp add: addNewObjectToVideo_def Let_def)
  have "find (\<lambda>v. vid v = videoId) (map ?f (videos s)) =
        map_option ?f (find (\<lambda>v. vid v = videoId) (videos s))"
    by (rule find_map_vid) simp
  then show ?thesis
    unfolding v
    by (cases "find (\<lambda>v. vid v = videoId) (videos s)") (auto dest: find_vid_SomeD)
qed

lemma catalog_add:
  "catalog videoId (snd (addNewObjectToVideo snap videoId nm suffix rnd s)) =
     (case find (\<lambda>v. vid v = videoId) (videos s) of
        None \<Rightarrow> []
      | Some v \<Rightarrow> detectedObjects v @
          [\<lparr>obj_id = videoId @ ''-new-'' @ suffix,
            name = fst (addNewObjectToVideo snap videoId nm suffix rnd s),
            confidence = 85 / 100 + rnd * (15 / 100), selected = False,
            code = Some (''CODE_'' @ map to_upper_char (take 8 (videoId @ ''-new-'' @ suffix))),
            additionalInfo = Some auto_detected_info,
            dlReservoirDomain = Some ''http://www.naver.com'',
            category = Some category_other\<rparr>])"
  unfolding catalog_def find_add by (simp split: option.split)

lemma counter_add:
  "counter videoId (snd (addNewObjectToVideo snap videoId nm suffix rnd s)) =
     (case find (\<lambda>v. vid v = videoId) (videos s) of None \<Rightarrow> 0
      | Some v \<Rightarrow> totalObjectsCreated v + 1)"
  unfolding counter_def find_add by (simp split: option.split)

lemma default_name_add:
  "fst (addNewObjectToVideo (videos s) videoId None suffix rnd s) =
     (case find (\<lambda>v. vid v = videoId) (videos s) of None \<Rightarrow> object_name 1
      | Some v \<Rightarrow> object_name (totalObjectsCreated v + 1))"
  by (simp add: addNewObjectToVideo_def Let_def split: option.split)

lemma find_delete:
  "find (\<lambda>v. vid v = videoId) (videos (deleteObjectFromVideo videoId objectId s)) =
   map_option (\<lambda>video. video\<lparr>detectedObjects :=
        filter (\<lambda>obj. obj_id obj \<noteq> objectId) (detectedObjects video)\<rparr>)
     (find (\<lambda>v. vid v = videoId) (videos s))"
proof -
  let ?f = "\<lambda>video. if vid video = videoId
                   then video\<lparr>detectedObjects :=
                          filter (\<lambda>obj. obj_id obj \<noteq> objectId) (detectedObjects video)\<rparr>
                   else video"
  have "find (\<lambda>v. vid v = videoId) (map ?f (videos s)) =
        map_option ?f (find (\<lambda>v. vid v = videoId) (videos s))"
    by (rule find_map_vid) simp
  then show ?thesis
    unfolding videos_deleteObjectFromVideo
    by (cases "find (\<lambda>v. vid v = videoId) (videos s)") (auto dest: find_vid_SomeD)
qed

lemma find_tick:
  "find (\<lambda>v. vid v = videoId) (videos (detectionTick i r sfx s)) =
     find (\<lambda>v. vid v = videoId) (videos s)
   \<or> (\<exists>v. find (\<lambda>v. vid v = videoId) (videos s) = Some v \<and> detectedObjects v = []
        \<and> find (\<lambda>v. vid v = videoId) (videos (detectionTick i r sfx s)) =
            Some (populate videoId sfx v))"
proof (cases "find (\<lambda>v. vid v = videoId) (videos s)")
  case None
  have "find (\<lambda>v. vid v = videoId) (map (populate w sfx) (videos s)) = None" for w
    using find_map_vid [of "populate w sfx" videoId "videos s"] None by (simp add: vid_populate)
  with None show ?thesis by (simp add: detectionTick_def Let_def)
next
  case (Some v)
  then have vv: "vid v = videoId" by (rule find_vid_SomeD)
  have m: "find (\<lambda>v. vid v = videoId) (map (populate w sfx) (videos s)) = Some (populate w sfx v)" for w
    using find_map_vid [of "populate w sfx" videoId "videos s"] Some by (simp add: vid_populate)
  have p: "populate w sfx v = v \<or> (detectedObjects v = [] \<and> w = videoId)" for w
    using vv by (auto simp: populate_def)
  show ?thesis
    using Some m p by (auto simp: detectionTick_def Let_def)
qed

lemma names_populate:
  "detectedObjects v = [] \<Longrightarrow> vid v = videoId \<Longrightarrow>
   map name (detectedObjects (populate videoId sfx v)) =
     [object_name 1, object_name 2, object_name 3, object_name 4, object_name 5]
   \<and> totalObjectsCreated (populate videoId sfx v) = max (totalObjectsCreated v) 5"
  by (simp add: populate_def DEFAULT_OBJECTS_def eval_nat_numeral)

lemma default_name_add_current:
  assumes "objectName = None \<or> objectName = Some []"
  shows "fst (addNewObjectToVideo (videos s) videoId objectName suffix rnd s) =
     (case find (\<lambda>v. vid v = videoId) (videos s) of None \<Rightarrow> object_name 1
      | Some v \<Rightarrow> object_name (totalObjectsCreated v + 1))"
  using assms by (auto simp: addNewObjectToVideo_def Let_def split: option.split)

text \<open>No operation lowers the counter or removes the video, whatever snapshot and name an
  add is given.\<close>

lemma apply_op_counter:
  "counter videoId s \<le> counter videoId (apply_op videoId op s)
   \<and> (find (\<lambda>v. vid v = videoId) (videos s) \<noteq> None \<longrightarrow>
        find (\<lambda>v. vid v = videoId) (videos (apply_op videoId op s)) \<noteq> None)"
proof (cases op)
  case (AddObject snapshot objectName suffix rnd)
  show ?thesis
    unfolding AddObject apply_op.simps counter_add find_add
    by (cases "find (\<lambda>v. vid v = videoId) (videos s)") (auto simp: counter_def)
next
  case (DeleteObject objectId)
  show ?thesis
    unfolding DeleteObject apply_op.simps
    by (cases "find (\<lambda>v. vid v = videoId) (videos s)")
      (simp_all add: counter_def find_delete)
next
  case (StartDetection c)
  show ?thesis
    unfolding StartDetection apply_op.simps
    by (simp add: counter_def runObjectDetection_def)
next
  case (TimerTick i r sfx)
  from find_tick [of videoId i r sfx s] show ?thesis
  proof
    assume "find (\<lambda>v. vid v = videoId) (videos (detectionTick i r sfx s)) =
      find (\<lambda>v. vid v = videoId) (videos s)"
    then show ?thesis
      unfolding TimerTick apply_op.simps by (simp add: counter_def)
  next
    assume "\<exists>v. find (\<lambda>v. vid v = videoId) (videos s) = Some v \<and> detectedObjects v = []
        \<and> find (\<lambda>v. vid v = videoId) (videos (detectionTick i r sfx s)) =
            Some (populate videoId sfx v)"
    then obtain v where v: "find (\<lambda>v. vid v = videoId) (videos s) = Some v"
      and e: "detectedObjects v = []"
      and p: "find (\<lambda>v. vid v = videoId) (videos (detectionTick i r sfx s)) =
            Some (populate videoId sfx v)" by blast
    from v have "vid v = videoId" by (rule find_vid_SomeD)
    note np = names_populate [OF e this, of sfx]
    then show ?thesis
      unfolding TimerTick apply_op.simps by (simp add: counter_def v p)
  qed
qed

text \<open>Every name created by an operation carries a number up to the counter the operation
  leaves, when an add goes through the callback of the current render and passes no
  name.\<close>

lemma apply_op_names:
  assumes "case op of
             AddObject snapshot objectName suffix rnd \<Rightarrow>
               snapshot = videos s \<and> (objectName = None \<or> objectName = Some [])
           | _ \<Rightarrow> True"
  shows "\<forall>x \<in> set (names_created videoId op s).
           \<exists>k. k \<le> counter videoId (apply_op videoId op s) \<and> x = object_name k"
proof (cases op)
  case (AddObject snapshot objectName suffix rnd)
  with assms have snap: "snapshot = videos s"
    and nm: "objectName = None \<or> objectName = Some []" by simp_all
  show ?thesis
    unfolding AddObject names_created_def apply_op.simps catalog_add counter_add snap
    by (cases "find (\<lambda>v. vid v = videoId) (videos s)")
      (auto simp: catalog_def default_name_add_current [OF nm])
next
  case (DeleteObject objectId)
  show ?thesis
    unfolding DeleteObject names_created_def apply_op.simps
    by (cases "find (\<lambda>v. vid v = videoId) (videos s)")
      (simp_all add: catalog_def find_delete)
next
  case (StartDetection c)
  show ?thesis
    unfolding StartDetection names_created_def apply_op.simps
    by (simp add: catalog_def runObjectDetection_def)
next
  case (TimerTick i r sfx)
  from find_tick [of videoId i r sfx s] show ?thesis
  proof
    assume "find (\<lambda>v. vid v = videoId) (videos (detectionTick i r sfx s)) =
      find (\<lambda>v. vid v = videoId) (videos s)"
    then show ?thesis
      unfolding TimerTick names_created_def apply_op.simps
      by (simp add: catalog_def)
  next
    assume "\<exists>v. find (\<lambda>v. vid v = videoId) (videos s) = Some v \<and> detectedObjects v = []
        \<and> find (\<lambda>v. vid v = videoId) (videos (detectionTick i r sfx s)) =
            Some (populate videoId sfx v)"
    then obtain v where v: "find (\<lambda>v. vid v = videoId) (videos s) = Some v"
      and e: "detectedObjects v = []"
      and p: "find (\<lambda>v. vid v = videoId) (videos (detectionTick i r sfx s)) =
            Some (populate videoId sfx v)" by blast
    from v have "vid v = videoId" by (rule find_vid_SomeD)
    note np = names_populate [OF e this, of sfx]
    have "\<exists>k. k \<le> max (totalObjectsCreated v) 5 \<and> object_name j = object_name k"
      if "j \<le> 5" for j :: nat
      using that by (intro exI [of _ j]) simp
    then show ?thesis
      unfolding TimerTick names_created_def apply_op.simps
      using np by (simp add: counter_def catalog_def v e p)
  qed
qed

lemma counter_run_ops: "counter videoId s \<le> counter videoId (run_ops videoId ops s)"
proof (induction ops arbitrary: s)
  case Nil
  show ?case by simp
next
  case (Cons op ops)
  from apply_op_counter [of videoId s op] Cons [of "apply_op videoId op s"]
  show ?case by simp
qed

lemma exists_run_ops:
  "find (\<lambda>v. vid v = videoId) (videos s) \<noteq> None \<Longrightarrow>
   find (\<lambda>v. vid v = videoId) (videos (run_ops videoId ops s)) \<noteq> None"
proof (induction ops arbitrary: s)
  case Nil
  then show ?case by simp
next
  case (Cons op ops)
  from apply_op_counter [of videoId s op] Cons.prems
  have "find (\<lambda>v. vid v = videoId) (videos (apply_op videoId op s)) \<noteq> None" by blast
  from Cons.IH [OF this] show ?case by simp
qed

lemma all_created_numbered:
  "current_default_adds videoId ops s \<Longrightarrow> x \<in> set (all_created videoId ops s) \<Longrightarrow>
   \<exists>k. k \<le> counter videoId (run_ops videoId ops s) \<and> x = object_name k"
proof (induction ops arbitrary: s)
  case Nil
  then show ?case by simp
next
  case (Cons op ops)
  from Cons.prems(1) have here: "case op of
             AddObject snapshot objectName suffix rnd \<Rightarrow>
               snapshot = videos s \<and> (objectName = None \<or> objectName = Some [])
           | _ \<Rightarrow> True"
    and rest: "current_default_adds videoId ops (apply_op videoId op s)" by simp_all
  from Cons.prems(2) consider
    (now) "x \<in> set (names_created videoId op s)"
    | (later) "x \<in> set (all_created videoId ops (apply_op videoId op s))"
    by auto
  then show ?case
  proof cases
    case now
    with apply_op_names [OF here, of videoId]
    obtain k where "k \<le> counter videoId (apply_op videoId op s)" and "x = object_name k"
      by blast
    with counter_run_ops [of videoId "apply_op videoId op s" ops]
    show ?thesis by (intro exI [of _ k]) simp
  next
    case later
    from Cons.IH [OF rest this] show ?thesis by simp
  qed
qed

text \<open>Two adds through the same callback instance read the same counter and return the
  same name.\<close>

lemma same_render_adds_share_name:
  "fst (addNewObjectToVideo (videos uploaded_hook) ''171234.mp4'' None ''n1'' (1 / 2)
          uploaded_hook) = ''Object(1)''
   \<and> fst (addNewObjectToVideo (videos uploaded_hook) ''171234.mp4'' None ''n2'' (1 / 2)
          first_added_hook) = ''Object(1)''"
  by (simp add: addNewObjectToVideo_def uploaded_hook_eq initial_hook_def example_video_def
      object_name_def string_of_digit digit_char_def Let_def)

text \<open>
  C4 (amended). No add, delete or detection step lowers the counter of a video, nor does
  any sequence of them, whatever snapshot and name the adds are given. In a session whose
  adds each go through the callback of the current render and pass no name, the default
  name that the next such add generates is \<open>Object(n)\<close> for \<open>n\<close> one more than the
  counter, and it differs from every name created in the session before it, by adding or
  by detection, whatever has been deleted since: after two objects are created and one is
  deleted the next name is \<open>Object(3)\<close>.
\<close>

theorem counter_monotone_fresh_names:
  "counter videoId s \<le> counter videoId (apply_op videoId op s)
   \<and> counter videoId s \<le> counter videoId (run_ops videoId ops s)
   \<and> (find (\<lambda>v. vid v = videoId) (videos s) \<noteq> None \<and> current_default_adds videoId ops s \<longrightarrow>
        (let s' = run_ops videoId ops s;
             generated = fst (addNewObjectToVideo (videos s') videoId None suffix rnd s')
         in generated = object_name (counter videoId s' + 1)
            \<and> generated \<notin> set (all_created videoId ops s)))"
proof -
  let ?s' = "run_ops videoId ops s"
  let ?g = "fst (addNewObjectToVideo (videos ?s') videoId None suffix rnd ?s')"
  have "?g = object_name (counter videoId ?s' + 1) \<and> ?g \<notin> set (all_created videoId ops s)"
    if ex: "find (\<lambda>v. vid v = videoId) (videos s) \<noteq> None"
      and cur: "current_default_adds videoId ops s"
  proof -
    from ex have "find (\<lambda>v. vid v = videoId) (videos ?s') \<noteq> None"
      by (rule exists_run_ops)
    then have g: "?g = object_name (counter videoId ?s' + 1)"
      by (auto simp: default_name_add counter_def)
    have "?g \<notin> set (all_created videoId ops s)"
    proof
      assume "?g \<in> set (all_created videoId ops s)"
      with cur obtain k where k: "k \<le> counter videoId ?s'" and "?g = object_name k"
        using all_created_numbered by blast
      with g have "counter videoId ?s' + 1 = k" by (auto dest: object_name_inj)
      with k show False by simp
    qed
    with g show ?thesis by simp
  qed
  then have "find (\<lambda>v. vid v = videoId) (videos s) \<noteq> None
      \<and> current_default_adds videoId ops s \<longrightarrow>
      ?g = object_name (counter videoId ?s' + 1) \<and> ?g \<notin> set (all_created videoId ops s)"
    by blast
  with apply_op_counter [of videoId s op] counter_run_ops [of videoId s ops]
  show ?thesis unfolding Let_def by blast
qed

theorem counter_monotone_fresh_names_witness:
  "find (\<lambda>v. vid v = ''171234.mp4'') (videos uploaded_hook) \<noteq> None
   \<and> current_default_adds ''171234.mp4'' create_create_delete uploaded_hook
   \<and> all_created ''171234.mp4'' create_create_delete uploaded_hook = [''Object(1)'', ''Object(2)'']
   \<and> length (catalog ''171234.mp4'' (run_ops ''171234.mp4'' create_create_delete uploaded_hook)) = 1
   \<and> counter ''171234.mp4'' (run_ops ''171234.mp4'' create_create_delete uploaded_hook) = 2
   \<and> fst (addNewObjectToVideo
            (videos (run_ops ''171234.mp4'' create_create_delete uploaded_hook))
            ''171234.mp4'' None ''n3'' (1 / 2)
            (run_ops ''171234.mp4'' create_create_delete uploaded_hook)) = ''Object(3)''"
proof -
  have ex: "find (\<lambda>v. vid v = ''171234.mp4'') (videos uploaded_hook) \<noteq> None"
    by (simp add: uploaded_hook_eq example_video_def)
  have cur: "current_default_adds ''171234.mp4'' create_create_delete uploaded_hook"
    by (simp add: create_create_delete_def first_added_hook_def)
  have made: "all_created ''171234.mp4'' create_create_delete uploaded_hook
      = [''Object(1)'', ''Object(2)'']"
    by (simp add: create_create_delete_def first_added_hook_def names_created_def catalog_def
      uploaded_hook_eq initial_hook_def example_video_def addNewObjectToVideo_def
      deleteObjectFromVideo_def object_name_def string_of_digit digit_char_def Let_def)
  have cnt: "counter ''171234.mp4'' (run_ops ''171234.mp4'' create_create_delete uploaded_hook) = 2"
    and len: "length (catalog ''171234.mp4''
        (run_ops ''171234.mp4'' create_create_delete uploaded_hook)) = 1"
    by (simp_all add: create_create_delete_def first_added_hook_def counter_def catalog_def
      uploaded_hook_eq initial_hook_def example_video_def addNewObjectToVideo_def
      deleteObjectFromVideo_def Let_def)
  from counter_monotone_fresh_names [of "''171234.mp4''" uploaded_hook
      "DeleteObject ''171234.mp4-new-n1''" create_create_delete "''n3''" "1 / 2"] ex cur
  have "fst (addNewObjectToVideo
            (videos (run_ops ''171234.mp4'' create_create_delete uploaded_hook))
            ''171234.mp4'' None ''n3'' (1 / 2)
            (run_ops ''171234.mp4'' create_create_delete uploaded_hook)) = object_name (2 + 1)"
    by (simp add: Let_def cnt)
  then have "fst (addNewObjectToVideo
            (videos (run_ops ''171234.mp4'' create_create_delete uploaded_hook))
            ''171234.mp4'' None ''n3'' (1 / 2)
            (run_ops ''171234.mp4'' create_create_delete uploaded_hook)) = ''Object(3)''"
    by (simp add: object_name_def string_of_digit digit_char_def)
  with ex cur made cnt len show ?thesis by simp
qed

text \<open>C4 as the specification states it also covers the names detection gives, and
  there it does not hold: detection always names its objects \<open>Object(1)\<close> to
  \<open>Object(5)\<close>, so after an added object is deleted the number 1 is handed out again.\<close>

theorem name_reuse_counterexample:
  "all_created ''171234.mp4'' reuse_ops uploaded_hook =
     [''Object(1)'', ''Object(1)'', ''Object(2)'', ''Object(3)'', ''Object(4)'', ''Object(5)'']
   \<and> \<not> distinct (all_created ''171234.mp4'' reuse_ops uploaded_hook)"
  by (simp add: reuse_ops_def names_created_def catalog_def uploaded_hook_eq initial_hook_def
      example_video_def addNewObjectToVideo_def deleteObjectFromVideo_def runObjectDetection_def
      detectionTick_def populate_def DEFAULT_OBJECTS_def object_name_def string_of_digit
      digit_char_def Let_def)

section \<open>Committing drawn regions on export\<close>

text \<open>The export handler passes each new object a name numbered from the length of the
  listed catalog, and \<open>addNewObjectToVideo\<close> keeps a name it is given.\<close>

lemma object_name_nonempty: "object_name k \<noteq> []"
  by (simp add: object_name_def)

lemma add_drawn_areas_names:
  "fst (add_drawn_areas (Some v) listed snapshot fresh index areas h) =
     map (\<lambda>k. object_name (length listed + k + 1)) [index ..< index + length areas]"
proof (induction areas arbitrary: index h)
  case Nil
  show ?case by simp
next
  case (Cons area rest)
  have nm: "fst (addNewObjectToVideo snapshot (vid v) (Some (object_name k)) a b h) = object_name k"
    for k a b
    by (simp add: addNewObjectToVideo_def Let_def object_name_nonempty)
  have "[index ..< index + length (area # rest)] = index # [Suc index ..< Suc index + length rest]"
    by (subst upt_rec) simp
  with Cons.IH [of "Suc index"] nm show ?case
    by (simp add: Let_def case_prod_beta)
qed

lemma two_regions_player_areas:
  "map area_kind (drawnAreas two_regions_player) = [Rectangle, Path]"
  by (simp add: two_regions_player_def pressed_player_eq initial_player_def handleMouseUp_def
      handleMouseDown_def handleMouseMove_def getCanvasCoordinates_def example_canvas_def
      at_client_def Let_def)

text \<open>
  C1. Exporting one rectangle and one freehand path commits two objects and announces
  their two names in order, and the counter goes up by two. The names, though, are
  numbered from the length of the catalog and not from the counter: with four objects
  left of five created, the new objects are \<open>Object(5)\<close>, a name the catalog already
  has, and \<open>Object(6)\<close>, where the counter gives \<open>Object(6)\<close> and \<open>Object(7)\<close>.
\<close>

theorem export_names_follow_list_length:
  "counter ''171234.mp4'' deleted_hook = 5
   \<and> map name (catalog ''171234.mp4'' deleted_hook)
       = [''Object(1)'', ''Object(3)'', ''Object(4)'', ''Object(5)'']
   \<and> map area_kind (drawnAreas two_regions_player) = [Rectangle, Path]
   \<and> (let (addedObjects, notice, p', h') =
             export_click (\<lambda>k. (''n'', 1 / 2)) two_regions_player deleted_hook
       in addedObjects = [''Object(5)'', ''Object(6)'']
          \<and> notice = Some (ObjectsAdded 2 ''Object(5), Object(6)'')
          \<and> map name (catalog ''171234.mp4'' h')
              = [''Object(1)'', ''Object(3)'', ''Object(4)'', ''Object(5)'', ''Object(5)'',
                 ''Object(6)'']
          \<and> counter ''171234.mp4'' h' = 7
          \<and> drawnAreas p' = [])"
proof -
  have a: "counter ''171234.mp4'' deleted_hook = 5"
    by (simp add: counter_def deleted_hook_eq initial_hook_def example_video_def)
  have b: "map name (catalog ''171234.mp4'' deleted_hook)
       = [''Object(1)'', ''Object(3)'', ''Object(4)'', ''Object(5)'']"
    by (simp add: catalog_def deleted_hook_eq initial_hook_def example_video_def
        detected_object_def object_name_def string_of_digit digit_char_def)
  obtain r1 r2 where areas: "drawnAreas two_regions_player = [r1, r2]"
    using two_regions_player_areas by (cases "drawnAreas two_regions_player") auto
  have c: "(let (addedObjects, notice, p', h') =
             export_click (\<lambda>k. (''n'', 1 / 2)) two_regions_player deleted_hook
       in addedObjects = [''Object(5)'', ''Object(6)'']
          \<and> notice = Some (ObjectsAdded 2 ''Object(5), Object(6)'')
          \<and> map name (catalog ''171234.mp4'' h')
              = [''Object(1)'', ''Object(3)'', ''Object(4)'', ''Object(5)'', ''Object(5)'',
                 ''Object(6)'']
          \<and> counter ''171234.mp4'' h' = 7
          \<and> drawnAreas p' = [])"
    by (simp add: export_click_def saveDrawingsAndDownloadWebVTT_def areas selectedVideo_def
        selectedVideoObjects_def deleted_hook_eq initial_hook_def example_video_def
        addNewObjectToVideo_def catalog_def counter_def detected_object_def object_name_def
        string_of_digit digit_char_def Let_def)
  from a b c two_regions_player_areas show ?thesis by simp
qed

end
